theory Spec2Isabelle
  imports Main
begin

section \<open>Data model of the rules engine (src/game.js)\<close>

text \<open>
  A JavaScript value that is used as a seat index: \<open>undefined\<close>, \<open>null\<close> or a number.
  The engine compares such values with \<open>==\<close> (where \<open>null\<close> and \<open>undefined\<close> are equal to
  each other and to nothing else) and indexes \<open>state.players\<close> with them (where everything
  but an index in range reads \<open>undefined\<close>).
\<close>

datatype jsnum = Undefined | Null | Num int

text \<open>A role is a string; \<open>None\<close> stands for a missing one (\<open>undefined\<close> or \<open>null\<close>).\<close>

type_synonym role = "string option"

datatype state_name =
  WAITING_FOR_PLAYERS | START_OF_TURN | ACTION_RESPONSE | BLOCK_RESPONSE
  | FINAL_ACTION_RESPONSE | REVEAL_INFLUENCE | EXCHANGE | INTERROGATE | GAME_WON | DESTROYED

text \<open>
  The \<open>message\<close> field of a state is a formatted string in the source; the model keeps
  the format and its arguments as data, one constructor for each format string.
\<close>

datatype msg =
  AttemptedSteal nat jsnum
  | AttemptedAssassinate nat jsnum
  | AttemptedExchange nat
  | AttemptedInterrogate nat jsnum
  | AttemptedDraw nat "string option"
  | AttemptedBlock nat role
  | IncorrectlyChallenged nat jsnum role
  | SuccessfullyChallenged nat jsnum
  | Assassinated jsnum jsnum
  | StagedCoup jsnum jsnum

record influence_slot =
  role :: role
  revealed :: bool

record player =
  pname :: string
  cash :: int
  influenceCount :: int
  influence :: "influence_slot list"
  isObserver :: bool
  ai :: bool

text \<open>
  The object held in \<open>state.state\<close>: a name and the fields of the object literal that
  \<open>setState\<close> was given. A field that the literal does not mention is \<open>undefined\<close>.
\<close>

record turn_state =
  name :: state_name
  playerIdx :: jsnum
  action :: "string option"
  target :: jsnum
  blockingRole :: role
  message :: "msg option"
  reason :: "string option"
  playerToReveal :: jsnum
  exchangeOptions :: "role list option"
  confession :: role

text \<open>A connected participant (an element of the closure variable \<open>players\<close>).\<close>

record conn =
  c_name :: "string option"
  playerId :: "string option"
  c_ai :: bool

text \<open>
  A handle returned by \<open>playerJoined\<close>. Its \<open>command\<close> either calls the engine's
  \<open>command\<close> with a seat index or is the empty function of an observer (\<open>None\<close>); its
  \<open>playerLeft\<close> calls the engine's \<open>playerLeft\<close> with a seat index.
\<close>

record handle =
  h_command :: "nat option"
  h_playerLeft :: nat

text \<open>
  The game: the fields of the shared \<open>state\<close> object (\<open>stateId\<close>, \<open>players\<close>, \<open>roles\<close>,
  \<open>state\<close>) and the closure variables of \<open>createGame\<close>. \<open>conns\<close> is the closure variable
  \<open>players\<close>; \<open>handles\<close> stores every handle object ever created, addressed by its
  position, and \<open>proxies\<close> lists the addresses that the array \<open>proxies\<close> holds;
  \<open>allows\<close> is the set of indices at which the sparse array \<open>allows\<close> is true;
  \<open>gameTracker\<close> tells whether the variable of that name has been assigned;
  \<open>rngPos\<close> counts the draws made from the seeded generator.
  \<open>state.numPlayers\<close> is not a field: the source changes it only together with
  \<open>state.players\<close> (\<open>push\<close> with \<open>++\<close>, \<open>splice\<close> with \<open>--\<close>), so it is read off the list.
  The constant fields \<open>gameId\<close>, \<open>gameName\<close> and \<open>created\<close>, the statistics sent to the
  data store, the event tracker's contents and the history events (delivered to the
  participants by timers) are outside the model.
\<close>

record game =
  stateId :: int
  players :: "player list"
  roles :: "string list"
  state :: turn_state
  conns :: "conn option list"
  allows :: "nat set"
  proxies :: "nat list"
  handles :: "handle list"
  deck :: "role list"
  fixedDeck :: bool
  gameTracker :: bool
  turnHistGroup :: nat
  adhocHistGroup :: nat
  rngPos :: nat

definition numPlayers :: "game \<Rightarrow> nat" where
  "numPlayers g = length (players g)"

text \<open>An entry of the table \<open>shared.actions\<close>, which lives in another file.\<close>

record action_def =
  cost :: int
  gain :: int
  aroles :: "string list option"
  targeted :: bool
  blockedBy :: "string list option"

text \<open>
  What the engine is given from outside: the action table, the sequence of numbers that
  the seeded generator yields, \<open>options.firstPlayer\<close>, the lines of the epithet file and
  the name under which an AI seat joins.
\<close>

record config =
  actions :: "string \<Rightarrow> action_def option"
  rnd :: "nat \<Rightarrow> nat"
  firstPlayer :: "nat option"
  epithets :: "string list"
  aiName :: string

record payload =
  p_stateId :: int
  p_command :: string
  p_action :: "string option"
  p_target :: jsnum
  p_role :: role
  p_blockingRole :: role
  p_roles :: "role list option"
  p_forceExchange :: bool
  p_gameType :: "string option"

text \<open>
  Every \<open>throw new GameException(message)\<close> is \<open>GameException message\<close>; a property read
  from \<open>undefined\<close> or \<open>null\<close> is \<open>TypeError\<close>. Both leave the mutations made so far in
  place, so a thrown error carries the game as it is at the throw.
\<close>

datatype error = GameException string | TypeError

datatype 'a result = Ok 'a game | Throw error game

definition andThen :: "'a result \<Rightarrow> ('a \<Rightarrow> game \<Rightarrow> 'b result) \<Rightarrow> 'b result" where
  "andThen r f = (case r of Ok a g \<Rightarrow> f a g | Throw e g \<Rightarrow> Throw e g)"

definition final :: "'a result \<Rightarrow> game" where
  "final r = (case r of Ok a g \<Rightarrow> g | Throw e g \<Rightarrow> g)"

definition rejected :: "'a result \<Rightarrow> bool" where
  "rejected r = (case r of Ok a g \<Rightarrow> False | Throw e g \<Rightarrow> True)"


section \<open>The deck and the seeded generator\<close>

text \<open>\<open>rand(n)\<close>: the next number of the generator, below \<open>n\<close> (and 0 when \<open>n\<close> is 0).\<close>

definition rand :: "config \<Rightarrow> nat \<Rightarrow> game \<Rightarrow> nat \<times> game" where
  "rand cfg n g =
     ((if n = 0 then 0 else rnd cfg (rngPos g) mod n), g\<lparr>rngPos := rngPos g + 1\<rparr>)"

text \<open>\<open>array.splice(i, 1)\<close>: the array without its element at index \<open>i\<close>.\<close>

definition splice1 :: "nat \<Rightarrow> 'a list \<Rightarrow> 'a list" where
  "splice1 i xs = take i xs @ drop (Suc i) xs"

text \<open>
  The loop of \<open>shuffle\<close>: while the array is not empty, move the element at a random
  index to the end of \<open>shuffled\<close>. The third argument is the generator's position.
\<close>

function shuffle_loop :: "(nat \<Rightarrow> nat) \<Rightarrow> 'a list \<Rightarrow> 'a list \<Rightarrow> nat \<Rightarrow> 'a list \<times> nat" where
  "shuffle_loop r array shuffled pos =
     (if array = [] then (shuffled, pos)
      else shuffle_loop r (splice1 (r pos mod length array) array)
             (shuffled @ [array ! (r pos mod length array)]) (Suc pos))"
  by pat_completeness auto
termination
proof (relation "measure (\<lambda>(r, array, shuffled, pos). length array)")
  show "wf (measure (\<lambda>(r, array, shuffled, pos). length array))"
    by simp
next
  fix r :: "nat \<Rightarrow> nat" and array shuffled :: "'a list" and pos :: nat
  assume "array \<noteq> []"
  then have "r pos mod length array < length array"
    by simp
  then have "length (splice1 (r pos mod length array) array) < length array"
    by (simp add: splice1_def)
  then show "((r, splice1 (r pos mod length array) array,
               shuffled @ [array ! (r pos mod length array)], Suc pos),
              (r, array, shuffled, pos))
             \<in> measure (\<lambda>(r, array, shuffled, pos). length array)"
    by simp
qed

declare shuffle_loop.simps [simp del]

definition shuffle :: "config \<Rightarrow> 'a list \<Rightarrow> game \<Rightarrow> 'a list \<times> game" where
  "shuffle cfg array g =
     (if fixedDeck g then (array, g)
      else (fst (shuffle_loop (rnd cfg) array [] (rngPos g)),
            g\<lparr>rngPos := snd (shuffle_loop (rnd cfg) array [] (rngPos g))\<rparr>))"

text \<open>\<open>buildDeck\<close>: three copies of the roles in play, shuffled.\<close>

definition buildDeck :: "config \<Rightarrow> game \<Rightarrow> role list \<times> game" where
  "buildDeck cfg g =
     shuffle cfg (map Some (roles g) @ map Some (roles g) @ map Some (roles g)) g"

text \<open>\<open>array.pop()\<close>: the last element (\<open>undefined\<close> when there is none) and the rest.\<close>

definition pop :: "role list \<Rightarrow> role \<times> role list" where
  "pop d = (if d = [] then (None, []) else (last d, butlast d))"

text \<open>\<open>swapRole\<close>: put the role on the deck, shuffle, draw the last card.\<close>

definition swapRole :: "config \<Rightarrow> role \<Rightarrow> game \<Rightarrow> role \<times> game" where
  "swapRole cfg r g =
     (let (d, g1) = shuffle cfg (deck g @ [r]) g
      in (fst (pop d), g1\<lparr>deck := snd (pop d)\<rparr>))"

text \<open>
  \<open>arrayDifference\<close>: remove the elements of \<open>subarray\<close> from \<open>array\<close> one by one;
  \<open>None\<close> is the result \<open>false\<close>.
\<close>

fun arrayDifference :: "'a list \<Rightarrow> 'a list \<Rightarrow> 'a list option" where
  "arrayDifference array [] = Some array"
| "arrayDifference array (x # subarray) =
     (if x \<in> set array then arrayDifference (remove1 x array) subarray else None)"

section \<open>Seats\<close>

text \<open>\<open>state.players[x]\<close> for an index value \<open>x\<close>; \<open>None\<close> is \<open>undefined\<close>.\<close>

definition playerAt :: "game \<Rightarrow> jsnum \<Rightarrow> player option" where
  "playerAt g x =
     (case x of
        Num i \<Rightarrow> if 0 \<le> i \<and> nat i < length (players g) then Some (players g ! nat i) else None
      | _ \<Rightarrow> None)"

text \<open>\<open>players[x]\<close> of the closure: \<open>None\<close> is \<open>undefined\<close> or \<open>null\<close>.\<close>

definition connAt :: "game \<Rightarrow> jsnum \<Rightarrow> conn option" where
  "connAt g x =
     (case x of
        Num i \<Rightarrow> if 0 \<le> i \<and> nat i < length (conns g) then conns g ! nat i else None
      | _ \<Rightarrow> None)"

text \<open>The update of the seat at an index that \<open>playerAt\<close> found.\<close>

definition updPlayer :: "jsnum \<Rightarrow> (player \<Rightarrow> player) \<Rightarrow> game \<Rightarrow> game" where
  "updPlayer x f g =
     (case x of
        Num i \<Rightarrow>
          if 0 \<le> i \<and> nat i < length (players g)
          then g\<lparr>players := (players g)[nat i := f (players g ! nat i)]\<rparr> else g
      | _ \<Rightarrow> g)"

text \<open>\<open>a == b\<close> on index values.\<close>

fun js_eq :: "jsnum \<Rightarrow> jsnum \<Rightarrow> bool" where
  "js_eq (Num a) (Num b) = (a = b)"
| "js_eq (Num a) _ = False"
| "js_eq _ (Num b) = False"
| "js_eq _ _ = True"

text \<open>Whether a role value is truthy: present and not the empty string.\<close>

definition truthy :: "role \<Rightarrow> bool" where
  "truthy r = (case r of None \<Rightarrow> False | Some s \<Rightarrow> s \<noteq> [])"

definition getInfluence :: "player \<Rightarrow> role list" where
  "getInfluence p = map role (filter (\<lambda>s. \<not> revealed s) (influence p))"

text \<open>\<open>indexOfInfluence\<close> on the slots from index \<open>i\<close> on; \<open>None\<close> is \<open>null\<close>.\<close>

fun indexOfInfluence_from :: "nat \<Rightarrow> influence_slot list \<Rightarrow> role \<Rightarrow> nat option" where
  "indexOfInfluence_from i [] r = None"
| "indexOfInfluence_from i (s # ss) r =
     (if role s = r \<and> \<not> revealed s then Some i else indexOfInfluence_from (Suc i) ss r)"

definition indexOfInfluence :: "player \<Rightarrow> role \<Rightarrow> nat option" where
  "indexOfInfluence p r = indexOfInfluence_from 0 (influence p) r"

text \<open>
  \<open>revealFirstInfluence\<close>: the first unrevealed slot is revealed and counted off.
  The role it returns goes into a history message only, so the model returns the seat.
\<close>

fun revealFirst :: "influence_slot list \<Rightarrow> (influence_slot list) option" where
  "revealFirst [] = None"
| "revealFirst (s # ss) =
     (if \<not> revealed s then Some (s\<lparr>revealed := True\<rparr> # ss)
      else map_option (Cons s) (revealFirst ss))"

definition revealFirstInfluence :: "player \<Rightarrow> player" where
  "revealFirstInfluence p =
     (case revealFirst (influence p) of
        None \<Rightarrow> p
      | Some ss \<Rightarrow> p\<lparr>influence := ss, influenceCount := influenceCount p - 1\<rparr>)"


section \<open>Turn order and the end of the game\<close>

text \<open>An object literal with the given name and no other field.\<close>

definition newState :: "state_name \<Rightarrow> turn_state" where
  "newState n =
     \<lparr>name = n, playerIdx = Undefined, action = None, target = Undefined,
      blockingRole = None, message = None, reason = None, playerToReveal = Undefined,
      exchangeOptions = None, confession = None\<rparr>"

definition setState :: "turn_state \<Rightarrow> game \<Rightarrow> game" where
  "setState s g = g\<lparr>state := s\<rparr>"

text \<open>
  \<open>(playerIdx + i) % numPlayers\<close> as an index into \<open>state.players\<close>: \<open>undefined + i\<close> is
  \<open>NaN\<close>, \<open>null + i\<close> is \<open>i\<close>, and the remainder of a negative number is negative or
  \<open>-0\<close>. \<open>None\<close> means that the array has nothing there.
\<close>

definition candidateIdx :: "jsnum \<Rightarrow> nat \<Rightarrow> nat \<Rightarrow> nat option" where
  "candidateIdx p i n =
     (case p of
        Undefined \<Rightarrow> None
      | Null \<Rightarrow> Some (i mod n)
      | Num k \<Rightarrow>
          if 0 \<le> k + int i then Some (nat (k + int i) mod n)
          else if nat (- (k + int i)) mod n = 0 then Some 0
          else None)"

fun nextPlayerIdx_loop :: "player list \<Rightarrow> jsnum \<Rightarrow> nat list \<Rightarrow> jsnum option" where
  "nextPlayerIdx_loop ps p [] = Some Null"
| "nextPlayerIdx_loop ps p (i # is) =
     (case candidateIdx p i (length ps) of
        None \<Rightarrow> None
      | Some c \<Rightarrow>
          if influenceCount (ps ! c) > 0 then Some (Num (int c))
          else nextPlayerIdx_loop ps p is)"

text \<open>\<open>nextPlayerIdx\<close>; \<open>None\<close> is the TypeError of reading a seat that is not there.\<close>

definition nextPlayerIdx :: "game \<Rightarrow> jsnum option" where
  "nextPlayerIdx g =
     nextPlayerIdx_loop (players g) (playerIdx (state g)) [1..<numPlayers g]"

definition nextTurn :: "game \<Rightarrow> unit result" where
  "nextTurn g =
     (if name (state g) \<noteq> GAME_WON then
        (let g1 = g\<lparr>turnHistGroup := turnHistGroup g + 1\<rparr>
         in case nextPlayerIdx g1 of
              None \<Rightarrow> Throw TypeError g1
            | Some p \<Rightarrow>
                (let g2 = setState ((newState START_OF_TURN)\<lparr>playerIdx := p\<rparr>) g1
                 in if gameTracker g2 then Ok () g2 else Throw TypeError g2))
      else Ok () g)"

text \<open>
  The loop of \<open>checkForGameEnd\<close> over the seats from index \<open>i\<close> on, with the winner found
  so far: a second live seat ends the search with \<open>null\<close>.
\<close>

fun findWinner :: "player list \<Rightarrow> nat \<Rightarrow> nat option \<Rightarrow> nat option" where
  "findWinner [] i w = w"
| "findWinner (p # ps) i w =
     (if influenceCount p > 0 then
        (case w of None \<Rightarrow> findWinner ps (Suc i) (Some i) | Some v \<Rightarrow> None)
      else findWinner ps (Suc i) w)"

definition checkForGameEnd :: "game \<Rightarrow> bool result" where
  "checkForGameEnd g =
     (case findWinner (players g) 0 None of
        Some w \<Rightarrow>
          (let g1 = setState ((newState GAME_WON)\<lparr>playerIdx := Num (int w)\<rparr>) g
           in if \<not> gameTracker g1 then Throw TypeError g1
              else if connAt g1 (Num (int w)) = None then Throw TypeError g1
              else Ok True g1)
      | None \<Rightarrow> Ok False g)"

definition afterPlayerDeath :: "jsnum \<Rightarrow> game \<Rightarrow> unit result" where
  "afterPlayerDeath idx g =
     (if connAt g idx = None then Throw TypeError g
      else andThen (checkForGameEnd (g\<lparr>adhocHistGroup := adhocHistGroup g + 1\<rparr>))
             (\<lambda>e g'. Ok () g'))"

section \<open>Allows\<close>

definition resetAllows :: "nat \<Rightarrow> game \<Rightarrow> game" where
  "resetAllows initiatingPlayerIdx g = g\<lparr>allows := {initiatingPlayerIdx}\<rparr>"

definition everyoneAllows :: "game \<Rightarrow> bool" where
  "everyoneAllows g =
     list_all (\<lambda>i. influenceCount (players g ! i) = 0 \<or> i \<in> allows g) [0..<numPlayers g]"

section \<open>Playing an action\<close>

text \<open>\<open>actions[x]\<close> for an action name that may be missing.\<close>

definition lookupAction :: "config \<Rightarrow> string option \<Rightarrow> action_def option" where
  "lookupAction cfg a = (case a of None \<Rightarrow> None | Some n \<Rightarrow> actions cfg n)"

text \<open>\<open>getGameRole\<close>: the first role in play that is among the given roles.\<close>

definition getGameRole :: "game \<Rightarrow> string list \<Rightarrow> role" where
  "getGameRole g rs = find (\<lambda>r. r \<in> set rs) (roles g)"

text \<open>
  \<open>playAction(playerIdx, actionState)\<close>. The action state is the command or the current
  state; the function reads its fields \<open>action\<close>, \<open>target\<close> and \<open>blockingRole\<close>, which are
  the third to fifth argument here. The result is whether the turn is over.
\<close>

definition playAction ::
  "config \<Rightarrow> jsnum \<Rightarrow> string option \<Rightarrow> jsnum \<Rightarrow> role \<Rightarrow> game \<Rightarrow> bool result" where
  "playAction cfg pIdx act tgt br g =
     (case playerAt g pIdx of
        None \<Rightarrow> Throw TypeError g
      | Some player \<Rightarrow>
     (case lookupAction cfg act of
        None \<Rightarrow> Throw TypeError g
      | Some a \<Rightarrow>
     (let g1 = updPlayer pIdx (\<lambda>p. p\<lparr>cash := cash p + gain a\<rparr>) g in
      if act = Some ''assassinate'' then
        (case playerAt g1 tgt of
           None \<Rightarrow> Throw TypeError g1
         | Some t \<Rightarrow>
             if influenceCount t = 1 then
               andThen (afterPlayerDeath tgt (updPlayer tgt revealFirstInfluence g1))
                 (\<lambda>u g'. Ok True g')
             else if influenceCount t > 1 then
               Ok False (setState
                 ((newState REVEAL_INFLUENCE)\<lparr>playerIdx := playerIdx (state g1),
                    action := act, target := tgt, blockingRole := br,
                    message := Some (Assassinated pIdx tgt),
                    reason := Some ''assassinate'', playerToReveal := tgt\<rparr>) g1)
             else Ok True g1)
      else if act = Some ''coup'' then
        (case playerAt g1 tgt of
           None \<Rightarrow> Throw TypeError g1
         | Some t \<Rightarrow>
             if influenceCount t \<le> 1 then
               andThen (afterPlayerDeath tgt (updPlayer tgt revealFirstInfluence g1))
                 (\<lambda>u g'. Ok True g')
             else
               Ok False (setState
                 ((newState REVEAL_INFLUENCE)\<lparr>playerIdx := playerIdx (state g1),
                    action := act, target := tgt, blockingRole := br,
                    message := Some (StagedCoup pIdx tgt),
                    reason := Some ''coup'', playerToReveal := tgt\<rparr>) g1))
      else if act = Some ''steal'' then
        (case playerAt g1 tgt of
           None \<Rightarrow> Throw TypeError g1
         | Some t \<Rightarrow>
             if cash t \<ge> 2 then
               Ok True (updPlayer pIdx (\<lambda>p. p\<lparr>cash := cash p + 2\<rparr>)
                         (updPlayer tgt (\<lambda>p. p\<lparr>cash := cash p - 2\<rparr>) g1))
             else
               Ok True (updPlayer tgt (\<lambda>p. p\<lparr>cash := 0\<rparr>)
                         (updPlayer pIdx (\<lambda>p. p\<lparr>cash := cash p + cash t\<rparr>) g1)))
      else if act = Some ''exchange'' then
        (let (c1, d1) = pop (deck g1);
             opts1 = c1 # getInfluence player;
             (opts, d) =
               (if ''ambassador'' \<in> set (roles g1)
                then (fst (pop d1) # opts1, snd (pop d1)) else (opts1, d1))
         in Ok False (setState
              ((newState EXCHANGE)\<lparr>playerIdx := playerIdx (state g1), action := act,
                 exchangeOptions := Some opts\<rparr>) (g1\<lparr>deck := d\<rparr>)))
      else if act = Some ''interrogate'' then
        (case playerAt g1 tgt of
           None \<Rightarrow> Throw TypeError g1
         | Some t \<Rightarrow>
             (let (r, g2) = rand cfg (length (getInfluence t)) g1
              in Ok False (setState
                   ((newState INTERROGATE)\<lparr>playerIdx := playerIdx (state g2),
                      action := act, target := target (state g2),
                      confession :=
                        (if r < length (getInfluence t) then getInfluence t ! r else None)\<rparr>)
                   g2)))
      else Ok True g1)))"


section \<open>Challenges and allows\<close>

definition afterSuccessfulChallenge :: "config \<Rightarrow> game \<Rightarrow> bool result" where
  "afterSuccessfulChallenge cfg g =
     (if truthy (blockingRole (state g)) then
        playAction cfg (playerIdx (state g)) (action (state g)) (target (state g))
          (blockingRole (state g)) g
      else Ok True g)"

definition afterIncorrectChallenge :: "config \<Rightarrow> game \<Rightarrow> bool result" where
  "afterIncorrectChallenge cfg g =
     (if truthy (blockingRole (state g)) then Ok True g
      else
        (case lookupAction cfg (action (state g)) of
           None \<Rightarrow> Throw TypeError g
         | Some a \<Rightarrow>
             (case blockedBy a of
                None \<Rightarrow>
                  playAction cfg (playerIdx (state g)) (action (state g)) (target (state g))
                    (blockingRole (state g)) g
              | Some bs \<Rightarrow>
                  (case playerAt g (target (state g)) of
                     None \<Rightarrow> Throw TypeError g
                   | Some t \<Rightarrow>
                       if influenceCount t > 0 then
                         Ok False (setState
                           ((newState FINAL_ACTION_RESPONSE)\<lparr>playerIdx := playerIdx (state g),
                              action := action (state g), target := target (state g),
                              message := message (state g)\<rparr>) g)
                       else
                         playAction cfg (playerIdx (state g)) (action (state g))
                           (target (state g)) (blockingRole (state g)) g))))"

text \<open>The state that asks a seat to reveal an influence after a challenge.\<close>

definition revealAfterChallenge :: "game \<Rightarrow> msg \<Rightarrow> string \<Rightarrow> jsnum \<Rightarrow> turn_state" where
  "revealAfterChallenge g m why who =
     (newState REVEAL_INFLUENCE)\<lparr>playerIdx := playerIdx (state g),
        action := action (state g), target := target (state g),
        blockingRole := blockingRole (state g), message := Some m,
        reason := Some why, playerToReveal := who\<rparr>"

definition setRole :: "nat \<Rightarrow> role \<Rightarrow> player \<Rightarrow> player" where
  "setRole j r p = p\<lparr>influence := (influence p)[j := (influence p ! j)\<lparr>role := r\<rparr>]\<rparr>"

definition challenge :: "config \<Rightarrow> nat \<Rightarrow> jsnum \<Rightarrow> role \<Rightarrow> game \<Rightarrow> unit result" where
  "challenge cfg pIdx cIdx cRole g =
     (case playerAt g cIdx of
        None \<Rightarrow> Throw (GameException ''Cannot identify challenged player'') g
      | Some challengedPlayer \<Rightarrow>
     (case indexOfInfluence challengedPlayer cRole of
        Some influenceIdx \<Rightarrow>
          if \<not> gameTracker g then Throw TypeError g
          else
            (let oldRole = role (influence challengedPlayer ! influenceIdx);
                 (newRole, g1) = swapRole cfg oldRole g;
                 g2 = updPlayer cIdx (setRole influenceIdx newRole) g1
             in case playerAt g2 (Num (int pIdx)) of
                  None \<Rightarrow> Throw TypeError g2
                | Some player \<Rightarrow>
                    if influenceCount player \<le> 1 then
                      andThen (afterIncorrectChallenge cfg
                                 (updPlayer (Num (int pIdx)) revealFirstInfluence g2))
                        (\<lambda>endOfTurn g4.
                      andThen (afterPlayerDeath (Num (int pIdx)) g4)
                        (\<lambda>u g5. if endOfTurn then nextTurn g5 else Ok () g5))
                    else
                      Ok () (setState
                        (revealAfterChallenge g2 (IncorrectlyChallenged pIdx cIdx oldRole)
                           ''incorrect-challenge'' (Num (int pIdx))) g2))
      | None \<Rightarrow>
          if \<not> gameTracker g then Throw TypeError g
          else
            (let wouldLoseTwoInfluences =
                   (name (state g) = BLOCK_RESPONSE \<and> action (state g) = Some ''assassinate''
                    \<and> js_eq (target (state g)) cIdx)
             in if influenceCount challengedPlayer \<le> 1 \<or> wouldLoseTwoInfluences then
                  (let g1 = updPlayer cIdx revealFirstInfluence g
                   in andThen
                        (if map_option influenceCount (playerAt g1 cIdx) = Some 0
                         then afterPlayerDeath cIdx g1 else Ok () g1)
                        (\<lambda>u g2.
                      andThen (afterSuccessfulChallenge cfg g2)
                        (\<lambda>endOfTurn g3. if endOfTurn then nextTurn g3 else Ok () g3)))
                else
                  Ok () (setState
                    (revealAfterChallenge g (SuccessfullyChallenged pIdx cIdx)
                       ''successful-challenge'' cIdx) g))))"

text \<open>\<open>allow(playerIdx)\<close>; the result is whether the state changed.\<close>

definition allow :: "config \<Rightarrow> nat \<Rightarrow> game \<Rightarrow> bool result" where
  "allow cfg pIdx g =
     (if name (state g) = BLOCK_RESPONSE then
        (if js_eq (target (state g)) (Num (int pIdx)) then
           Throw (GameException ''Cannot allow your own block'') g
         else
           (let g1 = g\<lparr>allows := insert pIdx (allows g)\<rparr>
            in if everyoneAllows g1 then andThen (nextTurn g1) (\<lambda>u g2. Ok True g2)
               else Ok False g1))
      else if name (state g) = ACTION_RESPONSE \<or> name (state g) = FINAL_ACTION_RESPONSE then
        (if js_eq (playerIdx (state g)) (Num (int pIdx)) then
           Throw (GameException ''Cannot allow your own action'') g
         else if name (state g) = FINAL_ACTION_RESPONSE
                 \<and> \<not> js_eq (target (state g)) (Num (int pIdx)) then
           Throw (GameException ''Only the targetted player can allow the action'') g
         else
           (let g1 = (if name (state g) = FINAL_ACTION_RESPONSE then g
                      else g\<lparr>allows := insert pIdx (allows g)\<rparr>)
            in if name (state g) \<noteq> FINAL_ACTION_RESPONSE \<and> \<not> everyoneAllows g1
               then Ok False g1
               else
                 andThen (playAction cfg (playerIdx (state g1)) (action (state g1))
                            (target (state g1)) (blockingRole (state g1)) g1)
                   (\<lambda>endOfTurn g2.
                 andThen (if endOfTurn then nextTurn g2 else Ok () g2)
                   (\<lambda>u g3. Ok True g3))))
      else Throw (GameException ''Incorrect state'') g)"


section \<open>Broadcasts\<close>




text \<open>
  \<open>emitState\<close> increases \<open>stateId\<close> and hands every seat its masked snapshot; it is the
  only place where \<open>stateId\<close> changes and the only place that broadcasts, so a broadcast
  shows as a step of \<open>stateId\<close>. \<open>broadcast\<close> lists the snapshots of one emission.
\<close>

definition emitState :: "game \<Rightarrow> game" where
  "emitState g = g\<lparr>stateId := stateId g + 1\<rparr>"


section \<open>Joining and leaving\<close>

definition MIN_PLAYERS :: nat where
  "MIN_PLAYERS = 2"

definition MAX_PLAYERS :: nat where
  "MAX_PLAYERS = 6"

definition createGame :: game where
  "createGame =
     \<lparr>stateId = 1, players = [], roles = [], state = newState WAITING_FOR_PLAYERS,
      conns = [], allows = {}, proxies = [], handles = [], deck = [], fixedDeck = False,
      gameTracker = False, turnHistGroup = 1, adhocHistGroup = 1, rngPos = 0\<rparr>"

definition canJoin :: "game \<Rightarrow> bool" where
  "canJoin g = (name (state g) = WAITING_FOR_PLAYERS \<and> length (players g) < MAX_PLAYERS)"

definition orAnonymous :: "string \<Rightarrow> string" where
  "orAnonymous n = (if n = [] then ''Anonymous'' else n)"

definition maxNameLength :: "player list \<Rightarrow> nat" where
  "maxNameLength ps = foldr (\<lambda>p m. max (length (pname p)) m) ps 0"

text \<open>
  \<open>playerName\<close>: while a seat has the name already, append a random epithet.
  The second argument is the list of seats, the fourth the generator's position.
\<close>

function playerName :: "config \<Rightarrow> player list \<Rightarrow> string \<Rightarrow> nat \<Rightarrow> string \<times> nat" where
  "playerName cfg ps n pos =
     (if orAnonymous n \<in> set (map pname ps) then
        playerName cfg ps
          (orAnonymous n @ '' '' @
             (if epithets cfg = [] then ''undefined''
              else epithets cfg ! (rnd cfg pos mod length (epithets cfg))))
          (Suc pos)
      else (orAnonymous n, pos))"
  by pat_completeness auto
termination
proof (relation "measure (\<lambda>(cfg, ps, n, pos). Suc (maxNameLength ps) - length (orAnonymous n))")
  show "wf (measure (\<lambda>(cfg, ps, n, pos). Suc (maxNameLength ps) - length (orAnonymous n)))"
    by simp
next
  fix cfg :: config and ps :: "player list" and n :: string and pos :: nat
  assume used: "orAnonymous n \<in> set (map pname ps)"
  have bound: "m \<in> set (map pname qs) \<Longrightarrow> length m \<le> maxNameLength qs" for m qs
    by (induction qs) (auto simp: maxNameLength_def)
  let ?n' = "orAnonymous n @ '' '' @
             (if epithets cfg = [] then ''undefined''
              else epithets cfg ! (rnd cfg pos mod length (epithets cfg)))"
  have "orAnonymous ?n' = ?n'"
    by (simp add: orAnonymous_def)
  moreover have "length (orAnonymous n) < length ?n'"
    by simp
  moreover have "length (orAnonymous n) \<le> maxNameLength ps"
    using used by (rule bound)
  ultimately show "((cfg, ps, ?n', Suc pos), (cfg, ps, n, pos))
        \<in> measure (\<lambda>(cfg, ps, n, pos). Suc (maxNameLength ps) - length (orAnonymous n))"
    by simp
qed

declare playerName.simps [simp del]

definition playerJoined :: "config \<Rightarrow> conn \<Rightarrow> game \<Rightarrow> nat \<times> game" where
  "playerJoined cfg c g =
     (let isObs = \<not> canJoin g;
          (n, pos) = playerName cfg (players g)
                       (case c_name c of None \<Rightarrow> [] | Some x \<Rightarrow> x) (rngPos g);
          playerState =
            (if isObs then
               \<lparr>pname = n, cash = 0, influenceCount = 0, influence = [],
                isObserver = True, ai = c_ai c\<rparr>
             else
               \<lparr>pname = n, cash = 2, influenceCount = 2,
                influence = [\<lparr>role = Some ''not dealt'', revealed = False\<rparr>,
                             \<lparr>role = Some ''not dealt'', revealed = False\<rparr>],
                isObserver = False, ai = c_ai c\<rparr>);
          idx = length (players g);
          g1 = emitState (g\<lparr>rngPos := pos, players := players g @ [playerState],
                 conns := conns g @ [Some c], adhocHistGroup := adhocHistGroup g + 1\<rparr>);
          proxy = \<lparr>h_command = (if isObs then None else Some idx), h_playerLeft = idx\<rparr>
      in (length (handles g1),
          g1\<lparr>handles := handles g1 @ [proxy], proxies := proxies g1 @ [length (handles g1)]\<rparr>))"

text \<open>
  \<open>createGameProxy(i, proxies[i])\<close> for every index from the one that left on: the
  handle object that \<open>proxies[i]\<close> holds gets new \<open>command\<close> and \<open>playerLeft\<close> functions
  that call the engine with \<open>i\<close>.
\<close>

definition rewire :: "nat \<Rightarrow> game \<Rightarrow> game" where
  "rewire pIdx g =
     g\<lparr>handles :=
         fold (\<lambda>i hs. if i < length (proxies g)
                       then hs[proxies g ! i := \<lparr>h_command = Some i, h_playerLeft = i\<rparr>]
                       else hs)
           [pIdx..<numPlayers g] (handles g)\<rparr>"

definition onlyAiLeft :: "game \<Rightarrow> bool" where
  "onlyAiLeft g = list_all (\<lambda>c. case c of None \<Rightarrow> True | Some x \<Rightarrow> c_ai x) (conns g)"

definition destroyGame :: "game \<Rightarrow> game" where
  "destroyGame g = setState (newState DESTROYED) (g\<lparr>conns := [], proxies := []\<rparr>)"

definition revealAll :: "player \<Rightarrow> player" where
  "revealAll p =
     p\<lparr>influence := map (\<lambda>s. s\<lparr>revealed := True\<rparr>) (influence p), influenceCount := 0\<rparr>"

text \<open>
  \<open>playerLeft(playerIdx, rejoined)\<close>; \<open>rejoined\<close> only changes the text of the history
  entry and is left out.
\<close>

definition playerLeft :: "config \<Rightarrow> nat \<Rightarrow> game \<Rightarrow> unit result" where
  "playerLeft cfg pIdx g =
     (if pIdx \<ge> numPlayers g then Throw (GameException ''Unknown player disconnected'') g
      else if connAt g (Num (int pIdx)) = None then Throw TypeError g
      else
        andThen
          (if name (state g) = WAITING_FOR_PLAYERS \<or> isObserver (players g ! pIdx) then
             Ok () (rewire pIdx (g\<lparr>players := splice1 pIdx (players g),
                       conns := splice1 pIdx (conns g), proxies := splice1 pIdx (proxies g)\<rparr>))
           else
             (let g1 = g\<lparr>conns := (conns g)[pIdx := None]\<rparr>
              in if name (state g1) = GAME_WON then Ok () g1
                 else if \<not> gameTracker g1 then Throw TypeError g1
                 else
                   andThen (checkForGameEnd (updPlayer (Num (int pIdx)) revealAll g1))
                     (\<lambda>ended g3.
                        if ended then Ok () g3
                        else if js_eq (playerIdx (state g3)) (Num (int pIdx)) then nextTurn g3
                        else if name (state g3) = REVEAL_INFLUENCE
                                \<and> js_eq (playerToReveal (state g3)) (Num (int pIdx))
                        then nextTurn g3
                        else if (name (state g3) = ACTION_RESPONSE
                                 \<or> name (state g3) = BLOCK_RESPONSE) \<and> pIdx \<notin> allows g3
                        then andThen (allow cfg pIdx g3) (\<lambda>b g4. Ok () g4)
                        else Ok () g3)))
          (\<lambda>u g4.
             (let g5 = g4\<lparr>adhocHistGroup := adhocHistGroup g4 + 1\<rparr>
              in Ok () (emitState (if onlyAiLeft g5 then destroyGame g5 else g5)))))"


text \<open>\<open>removeAiPlayer\<close>: the AI seat with the highest index above 0 leaves.\<close>

definition removeAiPlayer :: "config \<Rightarrow> game \<Rightarrow> unit result" where
  "removeAiPlayer cfg g =
     (case find (\<lambda>i. case conns g ! i of None \<Rightarrow> False | Some x \<Rightarrow> c_ai x)
             (rev [1..<length (conns g)]) of
        None \<Rightarrow> Ok () g
      | Some i \<Rightarrow> playerLeft cfg i g)"

text \<open>
  Modelled from the spec: \<open>createAiPlayer\<close> of ai-player.js is not among the sources.
  The spec has the AI driver receive the same handle as a human would, so adding an AI
  is a join of a participant whose \<open>ai\<close> flag is set.
\<close>

definition createAiPlayer :: "config \<Rightarrow> game \<Rightarrow> game" where
  "createAiPlayer cfg g =
     snd (playerJoined cfg \<lparr>c_name = Some (aiName cfg), playerId = Some ''ai'', c_ai = True\<rparr> g)"

section \<open>Starting the game\<close>

text \<open>\<open>player.influence[j].role = deck.pop()\<close> for the seat at index \<open>i\<close>.\<close>

definition dealSlot :: "nat \<Rightarrow> nat \<Rightarrow> game \<Rightarrow> unit result" where
  "dealSlot i j g =
     (if j < length (influence (players g ! i)) then
        Ok () (updPlayer (Num (int i)) (setRole j (fst (pop (deck g))))
                 (g\<lparr>deck := snd (pop (deck g))\<rparr>))
      else Throw TypeError g)"

fun dealLoop :: "nat list \<Rightarrow> game \<Rightarrow> unit result" where
  "dealLoop [] g = Ok () g"
| "dealLoop (i # is) g =
     (if isObserver (players g ! i) then dealLoop is g
      else andThen (dealSlot i 0 g) (\<lambda>u g1. andThen (dealSlot i 1 g1) (\<lambda>v g2. dealLoop is g2)))"

text \<open>The roles in play for a game type (\<open>gameType || 'original'\<close>).\<close>

definition gameRoles :: "string option \<Rightarrow> string list" where
  "gameRoles gameType =
     (let gt = (case gameType of None \<Rightarrow> ''original''
                | Some t \<Rightarrow> if t = [] then ''original'' else t)
      in [''duke'', ''captain'', ''assassin'', ''contessa'']
         @ [if gt = ''inquisitors'' then ''inquisitor'' else ''ambassador''])"

text \<open>
  The end of \<open>start\<close>: the first turn goes to \<open>options.firstPlayer\<close> when that is a
  number, and to a random seat among the non-observers otherwise.
\<close>

definition firstTurn :: "config \<Rightarrow> game \<Rightarrow> game" where
  "firstTurn cfg g4 =
     (let nonObservers = filter (\<lambda>i. \<not> isObserver (players g4 ! i)) [0..<numPlayers g4];
          (fp, g5) =
            (case firstPlayer cfg of
               Some n \<Rightarrow> (Num (int n), g4)
             | None \<Rightarrow>
                 (let (r, g') = rand cfg (length nonObservers) g4
                  in (if r < length nonObservers
                      then Num (int (nonObservers ! r)) else Undefined, g')))
      in setState ((newState START_OF_TURN)\<lparr>playerIdx := fp\<rparr>)
           (g5\<lparr>turnHistGroup := turnHistGroup g5 + 1\<rparr>))"

definition start :: "config \<Rightarrow> string option \<Rightarrow> game \<Rightarrow> unit result" where
  "start cfg gameType g =
     (if name (state g) \<noteq> WAITING_FOR_PLAYERS then Throw (GameException ''Incorrect state'') g
      else if numPlayers g \<ge> MIN_PLAYERS then
        (let g1 = g\<lparr>roles := gameRoles gameType\<rparr>;
             (d, g2) = buildDeck cfg g1
         in andThen (dealLoop [0..<numPlayers g2] (g2\<lparr>deck := d, gameTracker := True\<rparr>))
              (\<lambda>u g4. Ok () (firstTurn cfg g4)))
      else Ok () g)"

section \<open>Commands\<close>

text \<open>
  The branches of \<open>command\<close>, one definition for each value of \<open>command.command\<close> that
  has a long body. Each is entered with the seat at \<open>pIdx\<close> present and the \<open>stateId\<close>
  checked, and returns to the final \<open>emitState\<close> of \<open>command\<close>.
\<close>

definition attemptMessage :: "nat \<Rightarrow> payload \<Rightarrow> msg" where
  "attemptMessage pIdx c =
     (if p_action c = Some ''steal'' then AttemptedSteal pIdx (p_target c)
      else if p_action c = Some ''assassinate'' then AttemptedAssassinate pIdx (p_target c)
      else if p_action c = Some ''exchange'' then AttemptedExchange pIdx
      else if p_action c = Some ''interrogate'' then AttemptedInterrogate pIdx (p_target c)
      else AttemptedDraw pIdx (p_action c))"

text \<open>The checks of a targeted action; \<open>None\<close> when the target passes them.\<close>

definition targetError :: "game \<Rightarrow> jsnum \<Rightarrow> string option" where
  "targetError g t =
     (case t of
        Num i \<Rightarrow>
          if i < 0 \<or> i \<ge> int (numPlayers g) then Some ''Invalid target specified''
          else if influenceCount (players g ! nat i) = 0 then Some ''Cannot target dead player''
          else None
      | _ \<Rightarrow> Some ''No target specified'')"

definition command_play_action :: "config \<Rightarrow> nat \<Rightarrow> payload \<Rightarrow> game \<Rightarrow> unit result" where
  "command_play_action cfg pIdx c g =
     (if name (state g) \<noteq> START_OF_TURN then Throw (GameException ''Incorrect state'') g
      else if \<not> js_eq (playerIdx (state g)) (Num (int pIdx)) then
        Throw (GameException ''Not your turn'') g
      else
        (case lookupAction cfg (p_action c) of
           None \<Rightarrow> Throw (GameException ''Unknown action'') g
         | Some a \<Rightarrow>
             if (case aroles a of None \<Rightarrow> False | Some rs \<Rightarrow> getGameRole g rs = None) then
               Throw (GameException ''Action not allowed in this game'') g
             else if cash (players g ! pIdx) \<ge> 10 \<and> p_action c \<noteq> Some ''coup'' then
               Throw (GameException ''You must coup with >= 10 cash'') g
             else if cash (players g ! pIdx) < cost a then
               Throw (GameException ''Not enough cash'') g
             else if targeted a \<and> targetError g (p_target c) \<noteq> None then
               Throw (GameException (the (targetError g (p_target c)))) g
             else if \<not> gameTracker g then Throw TypeError g
             else
               (let g1 = updPlayer (Num (int pIdx)) (\<lambda>p. p\<lparr>cash := cash p - cost a\<rparr>) g
                in if aroles a = None \<and> blockedBy a = None then
                     andThen (playAction cfg (Num (int pIdx)) (p_action c) (p_target c)
                                (p_blockingRole c) g1)
                       (\<lambda>endOfTurn g2. if endOfTurn then nextTurn g2 else Ok () g2)
                   else
                     Ok () (resetAllows pIdx (setState
                       ((newState ACTION_RESPONSE)\<lparr>playerIdx := Num (int pIdx),
                          action := p_action c, target := p_target c,
                          message := Some (attemptMessage pIdx c)\<rparr>) g1)))))"

definition command_challenge :: "config \<Rightarrow> nat \<Rightarrow> game \<Rightarrow> unit result" where
  "command_challenge cfg pIdx g =
     (if influenceCount (players g ! pIdx) = 0 then
        Throw (GameException ''Dead players cannot challenge'') g
      else if name (state g) = ACTION_RESPONSE then
        (if js_eq (Num (int pIdx)) (playerIdx (state g)) then
           Throw (GameException ''Cannot challenge your own action'') g
         else
           (case lookupAction cfg (action (state g)) of
              None \<Rightarrow> Throw (GameException ''Unknown action'') g
            | Some a \<Rightarrow>
                (case aroles a of
                   None \<Rightarrow> Throw (GameException ''Action cannot be challenged'') g
                 | Some rs \<Rightarrow>
                     challenge cfg pIdx (playerIdx (state g)) (getGameRole g rs) g)))
      else if name (state g) = BLOCK_RESPONSE then
        (if js_eq (Num (int pIdx)) (target (state g)) then
           Throw (GameException ''Cannot challenge your own block'') g
         else challenge cfg pIdx (target (state g)) (blockingRole (state g)) g)
      else Throw (GameException ''Incorrect state'') g)"

definition revealSlot :: "nat \<Rightarrow> player \<Rightarrow> player" where
  "revealSlot i p =
     p\<lparr>influence := (influence p)[i := (influence p ! i)\<lparr>revealed := True\<rparr>],
       influenceCount := influenceCount p - 1\<rparr>"

definition command_reveal :: "config \<Rightarrow> nat \<Rightarrow> payload \<Rightarrow> game \<Rightarrow> unit result" where
  "command_reveal cfg pIdx c g =
     (if name (state g) \<noteq> REVEAL_INFLUENCE then Throw (GameException ''Incorrect state'') g
      else if \<not> js_eq (playerToReveal (state g)) (Num (int pIdx)) then
        Throw (GameException ''Not your turn to reveal an influence'') g
      else
        (case indexOfInfluence (players g ! pIdx) (p_role c) of
           None \<Rightarrow> Throw (GameException ''Could not reveal role'') g
         | Some i \<Rightarrow>
             (let g1 = updPlayer (Num (int pIdx)) (revealSlot i) g
              in if reason (state g1) = Some ''incorrect-challenge'' then
                   andThen (afterIncorrectChallenge cfg g1)
                     (\<lambda>endOfTurn g2. if endOfTurn then nextTurn g2 else Ok () g2)
                 else if reason (state g1) = Some ''successful-challenge'' then
                   andThen (afterSuccessfulChallenge cfg g1)
                     (\<lambda>endOfTurn g2. if endOfTurn then nextTurn g2 else Ok () g2)
                 else nextTurn g1)))"

definition command_block :: "config \<Rightarrow> nat \<Rightarrow> payload \<Rightarrow> game \<Rightarrow> unit result" where
  "command_block cfg pIdx c g =
     (if influenceCount (players g ! pIdx) = 0 then
        Throw (GameException ''Dead players cannot block'') g
      else if name (state g) \<noteq> ACTION_RESPONSE \<and> name (state g) \<noteq> FINAL_ACTION_RESPONSE then
        Throw (GameException ''Incorrect state'') g
      else
        (case lookupAction cfg (action (state g)) of
           None \<Rightarrow> Throw (GameException ''Unknown action'') g
         | Some a \<Rightarrow>
             if js_eq (Num (int pIdx)) (playerIdx (state g)) then
               Throw (GameException ''Cannot block your own action'') g
             else
               (case blockedBy a of
                  None \<Rightarrow> Throw (GameException ''Action cannot be blocked'') g
                | Some bs \<Rightarrow>
                    if \<not> truthy (p_blockingRole c) then
                      Throw (GameException ''No blocking role specified'') g
                    else if the (p_blockingRole c) \<notin> set (roles g) then
                      Throw (GameException ''Role not valid in this game'') g
                    else if the (p_blockingRole c) \<notin> set bs then
                      Throw (GameException ''Action cannot be blocked by that role'') g
                    else if \<not> gameTracker g then Throw TypeError g
                    else
                      Ok () (resetAllows pIdx (setState
                        ((newState BLOCK_RESPONSE)\<lparr>playerIdx := playerIdx (state g),
                           action := action (state g), target := Num (int pIdx),
                           blockingRole := p_blockingRole c,
                           message := Some (AttemptedBlock pIdx (p_blockingRole c))\<rparr>) g)))))"


text \<open>
  The loop that hands the chosen roles out: every unrevealed slot, in order, takes
  \<open>command.roles.pop()\<close>.
\<close>

fun assignRoles :: "influence_slot list \<Rightarrow> role list \<Rightarrow> influence_slot list" where
  "assignRoles [] rs = []"
| "assignRoles (s # ss) rs =
     (if \<not> revealed s then s\<lparr>role := fst (pop rs)\<rparr> # assignRoles ss (snd (pop rs))
      else s # assignRoles ss rs)"

definition command_exchange :: "config \<Rightarrow> nat \<Rightarrow> payload \<Rightarrow> game \<Rightarrow> unit result" where
  "command_exchange cfg pIdx c g =
     (if name (state g) \<noteq> EXCHANGE then Throw (GameException ''Incorrect state'') g
      else if \<not> js_eq (playerIdx (state g)) (Num (int pIdx)) then
        Throw (GameException ''Not your turn'') g
      else
        (case p_roles c of
           None \<Rightarrow> Throw (GameException ''Must specify roles to exchange'') g
         | Some rs \<Rightarrow>
             if int (length rs) \<noteq> influenceCount (players g ! pIdx) then
               Throw (GameException ''Wrong number of roles'') g
             else
               (case exchangeOptions (state g) of
                  None \<Rightarrow>
                    if rs = [] then Throw (GameException ''Invalid choice of roles'') g
                    else Throw TypeError g
                | Some opts \<Rightarrow>
                    (case arrayDifference opts rs of
                       None \<Rightarrow> Throw (GameException ''Invalid choice of roles'') g
                     | Some unchosen \<Rightarrow>
                         (let g1 = updPlayer (Num (int pIdx))
                                     (\<lambda>p. p\<lparr>influence := assignRoles (influence p) rs\<rparr>) g;
                              (d, g2) = shuffle cfg (deck g1 @ unchosen) g1
                          in nextTurn (g2\<lparr>deck := d\<rparr>))))))"

definition command_interrogate :: "config \<Rightarrow> nat \<Rightarrow> payload \<Rightarrow> game \<Rightarrow> unit result" where
  "command_interrogate cfg pIdx c g =
     (if name (state g) \<noteq> INTERROGATE then Throw (GameException ''Incorrect state'') g
      else if \<not> js_eq (playerIdx (state g)) (Num (int pIdx)) then
        Throw (GameException ''Not your turn'') g
      else if p_forceExchange c then
        (case playerAt g (target (state g)) of
           None \<Rightarrow> Throw TypeError g
         | Some t \<Rightarrow>
             (case indexOfInfluence t (confession (state g)) of
                None \<Rightarrow> Throw (GameException ''Target does not have the confessed role'') g
              | Some idx \<Rightarrow>
                  (let (newRole, g1) = swapRole cfg (confession (state g)) g
                   in nextTurn (updPlayer (target (state g)) (setRole idx newRole) g1))))
      else nextTurn g)"

text \<open>
  \<open>command(playerIdx, command)\<close>. The text of the stale-state message, which quotes the
  two ids, is shortened. An \<open>allow\<close> that does not change the state returns before the
  final \<open>emitState\<close>.
\<close>

definition command :: "config \<Rightarrow> nat \<Rightarrow> payload \<Rightarrow> game \<Rightarrow> unit result" where
  "command cfg pIdx c g =
     (if pIdx \<ge> length (players g) then Throw (GameException ''Unknown player'') g
      else if p_stateId c \<noteq> stateId g then Throw (GameException ''Stale state'') g
      else if p_command c = ''start'' then
        andThen (start cfg (p_gameType c) g) (\<lambda>u g'. Ok () (emitState g'))
      else if p_command c = ''add-ai'' then
        (if name (state g) \<noteq> WAITING_FOR_PLAYERS then
           Throw (GameException ''Incorrect state'') g
         else Ok () (emitState (createAiPlayer cfg g)))
      else if p_command c = ''remove-ai'' then
        (if name (state g) \<noteq> WAITING_FOR_PLAYERS then
           Throw (GameException ''Incorrect state'') g
         else andThen (removeAiPlayer cfg g) (\<lambda>u g'. Ok () (emitState g')))
      else if p_command c = ''play-action'' then
        andThen (command_play_action cfg pIdx c g) (\<lambda>u g'. Ok () (emitState g'))
      else if p_command c = ''challenge'' then
        andThen (command_challenge cfg pIdx g) (\<lambda>u g'. Ok () (emitState g'))
      else if p_command c = ''reveal'' then
        andThen (command_reveal cfg pIdx c g) (\<lambda>u g'. Ok () (emitState g'))
      else if p_command c = ''block'' then
        andThen (command_block cfg pIdx c g) (\<lambda>u g'. Ok () (emitState g'))
      else if p_command c = ''allow'' then
        (if influenceCount (players g ! pIdx) = 0 then
           Throw (GameException ''Dead players cannot allow actions'') g
         else
           andThen (allow cfg pIdx g)
             (\<lambda>stateChanged g'. if stateChanged then Ok () (emitState g') else Ok () g'))
      else if p_command c = ''exchange'' then
        andThen (command_exchange cfg pIdx c g) (\<lambda>u g'. Ok () (emitState g'))
      else if p_command c = ''interrogate'' then
        andThen (command_interrogate cfg pIdx c g) (\<lambda>u g'. Ok () (emitState g'))
      else Throw (GameException ''Unknown command'') g)"

section \<open>Handles\<close>

text \<open>
  Calling \<open>command\<close> and \<open>playerLeft\<close> of the handle object stored at address \<open>h\<close>.
  An address that no handle has been created at has no function to call; the model
  leaves the game as it is there.
\<close>

definition handle_command :: "config \<Rightarrow> nat \<Rightarrow> payload \<Rightarrow> game \<Rightarrow> unit result" where
  "handle_command cfg h c g =
     (if h < length (handles g) then
        (case h_command (handles g ! h) of
           None \<Rightarrow> Ok () g
         | Some i \<Rightarrow> command cfg i c g)
      else Ok () g)"

definition handle_playerLeft :: "config \<Rightarrow> nat \<Rightarrow> game \<Rightarrow> unit result" where
  "handle_playerLeft cfg h g =
     (if h < length (handles g) then playerLeft cfg (h_playerLeft (handles g ! h)) g
      else Ok () g)"


section \<open>Concrete games\<close>

text \<open>
  Modelled from the spec: the table \<open>actions\<close> of web/shared.js is not among the sources.
  The spec gives every action a cost, an optional gain, the roles that gate it, whether it
  is targeted and the roles that block it, and its scenarios fix the entries used here:
  assassinate costs 3, is claimed with the assassin and blocked by the contessa; tax is
  claimed with the duke and cannot be blocked; exchange is claimed with the ambassador or
  the inquisitor; steal takes up to 2 from its target. The general theorems below hold
  for every table; this one serves the concrete games.
\<close>

definition standard_actions :: "string \<Rightarrow> action_def option" where
  "standard_actions n =
     (if n = ''coup'' then
        Some \<lparr>cost = 7, gain = 0, aroles = None, targeted = True, blockedBy = None\<rparr>
      else if n = ''income'' then
        Some \<lparr>cost = 0, gain = 1, aroles = None, targeted = False, blockedBy = None\<rparr>
      else if n = ''foreign-aid'' then
        Some \<lparr>cost = 0, gain = 2, aroles = None, targeted = False,
              blockedBy = Some [''duke'']\<rparr>
      else if n = ''tax'' then
        Some \<lparr>cost = 0, gain = 3, aroles = Some [''duke''], targeted = False,
              blockedBy = None\<rparr>
      else if n = ''assassinate'' then
        Some \<lparr>cost = 3, gain = 0, aroles = Some [''assassin''], targeted = True,
              blockedBy = Some [''contessa'']\<rparr>
      else if n = ''steal'' then
        Some \<lparr>cost = 0, gain = 0, aroles = Some [''captain''], targeted = True,
              blockedBy = Some [''captain'', ''ambassador'', ''inquisitor'']\<rparr>
      else if n = ''exchange'' then
        Some \<lparr>cost = 0, gain = 0, aroles = Some [''ambassador'', ''inquisitor''],
              targeted = False, blockedBy = None\<rparr>
      else if n = ''interrogate'' then
        Some \<lparr>cost = 0, gain = 0, aroles = Some [''inquisitor''], targeted = True,
              blockedBy = None\<rparr>
      else None)"

text \<open>
  A configuration whose generator always yields 0, so that \<open>shuffle\<close> keeps the order of
  the deck, and whose first turn goes to seat 0.
\<close>

definition exampleConfig :: config where
  "exampleConfig =
     \<lparr>actions = standard_actions, rnd = (\<lambda>n. 0), firstPlayer = Some 0,
      epithets = [''the Bold''], aiName = ''Robot''\<rparr>"

definition human :: "string \<Rightarrow> conn" where
  "human n = \<lparr>c_name = Some n, playerId = Some n, c_ai = False\<rparr>"

definition join :: "string \<Rightarrow> game \<Rightarrow> game" where
  "join n g = snd (playerJoined exampleConfig (human n) g)"

definition request :: "string \<Rightarrow> payload" where
  "request c =
     \<lparr>p_stateId = 0, p_command = c, p_action = None, p_target = Undefined, p_role = None,
      p_blockingRole = None, p_roles = None, p_forceExchange = False, p_gameType = None\<rparr>"

definition play :: "string \<Rightarrow> payload" where
  "play a = (request ''play-action'')\<lparr>p_action := Some a\<rparr>"

definition playOn :: "string \<Rightarrow> int \<Rightarrow> payload" where
  "playOn a t = (request ''play-action'')\<lparr>p_action := Some a, p_target := Num t\<rparr>"

text \<open>A seat answers the latest broadcast: the payload carries the current \<open>stateId\<close>.\<close>

definition send :: "nat \<Rightarrow> payload \<Rightarrow> game \<Rightarrow> unit result" where
  "send i c g = command exampleConfig i (c\<lparr>p_stateId := stateId g\<rparr>) g"

definition sent :: "nat \<Rightarrow> payload \<Rightarrow> game \<Rightarrow> game" where
  "sent i c g = final (send i c g)"

text \<open>Two and three seats in the lobby, and the games started from them.\<close>

definition lobby2 :: game where
  "lobby2 = join ''bob'' (join ''alice'' createGame)"

definition lobby3 :: game where
  "lobby3 = join ''carol'' lobby2"

definition started2 :: game where
  "started2 = sent 0 (request ''start'') lobby2"

definition started3 :: game where
  "started3 = sent 0 (request ''start'') lobby3"

text \<open>Both seats of the two-seat game draw income in turn, eight times each.\<close>

definition incomeRound :: "game \<Rightarrow> game" where
  "incomeRound g = sent 1 (play ''income'') (sent 0 (play ''income'') g)"

definition rich2 :: game where
  "rich2 =
     incomeRound (incomeRound (incomeRound (incomeRound
       (incomeRound (incomeRound (incomeRound (incomeRound started2)))))))"

definition left :: "nat \<Rightarrow> game \<Rightarrow> game" where
  "left i g = final (playerLeft exampleConfig i g)"

text \<open>One seat in the lobby.\<close>

definition lobby1 :: game where
  "lobby1 = join ''alice'' createGame"

text \<open>Seven participants join, so that the seventh is an observer.\<close>

definition lobby7 :: game where
  "lobby7 = join ''grace'' (join ''frank'' (join ''erin'' (join ''dave'' lobby3)))"

section \<open>Predicates of the statements\<close>

text \<open>Every seat that is not an observer has its two influence slots.\<close>

definition seatsDealable :: "game \<Rightarrow> bool" where
  "seatsDealable g = list_all (\<lambda>p. isObserver p \<or> 2 \<le> length (influence p)) (players g)"

text \<open>
  Two games with the same state, the same \<open>stateId\<close>, and seats that agree on being
  observers and on their numbers of slots.
\<close>

definition sameSeats :: "game \<Rightarrow> game \<Rightarrow> bool" where
  "sameSeats g g' =
     (state g' = state g \<and> stateId g' = stateId g
      \<and> map (\<lambda>p. (isObserver p, length (influence p))) (players g')
        = map (\<lambda>p. (isObserver p, length (influence p))) (players g))"






text \<open>
  The result of a call leaves \<open>stateId\<close> at \<open>k\<close> above its value in \<open>g\<close> when the call
  returns, and where it was when the call throws.
\<close>

definition bumps :: "int \<Rightarrow> game \<Rightarrow> 'a result \<Rightarrow> bool" where
  "bumps k g r =
     (case r of Ok a g' \<Rightarrow> stateId g' = stateId g + k | Throw e g' \<Rightarrow> stateId g' = stateId g)"

text \<open>
  Three seats; seat 0 claims the duke's tax, which opens the response window. And a lobby
  in which the only human has added an AI.
\<close>

definition taxed3 :: game where
  "taxed3 = sent 0 (play ''tax'') started3"

definition withRobot :: game where
  "withRobot = sent 0 (request ''add-ai'') lobby1"

text \<open>A seat with no influence left, and a seat with exactly one.\<close>

definition deadSeat :: "player \<Rightarrow> bool" where
  "deadSeat p = (influenceCount p = 0 \<and> list_all revealed (influence p))"

definition oneLeft :: "player \<Rightarrow> bool" where
  "oneLeft p = (influenceCount p = 1 \<and> length (getInfluence p) = 1)"

text \<open>
  Three seats. Seat 0 draws income; seat 1, who holds the captain, steals from seat 0;
  seat 2 challenges, loses, and reveals the duke: the target, seat 0, now has the final
  chance to block.
\<close>

definition finalWindow :: game where
  "finalWindow =
     sent 2 ((request ''reveal'')\<lparr>p_role := Some ''duke''\<rparr>)
       (sent 2 (request ''challenge'')
          (sent 1 (playOn ''steal'' 0)
             (sent 0 (play ''income'') started3)))"

definition blockWith :: "string \<Rightarrow> payload" where
  "blockWith r = (request ''block'')\<lparr>p_blockingRole := Some r\<rparr>"

text \<open>
  Two seats, after an income each. In \<open>aimed2\<close> seat 0 assassinates seat 1, who holds
  two influences; in \<open>blocked2\<close> seat 1 blocks with a contessa that it does not hold. In
  \<open>aimed1\<close> seat 0 first loses its contessa to a challenged tax, then seat 1 assassinates
  seat 0; in \<open>blocked1\<close> seat 0 blocks with the contessa that it no longer holds.
\<close>

definition aimed1 :: game where
  "aimed1 =
     sent 1 (playOn ''assassinate'' 0)
       (sent 0 ((request ''reveal'')\<lparr>p_role := Some ''contessa''\<rparr>)
          (sent 1 (request ''challenge'')
             (sent 0 (play ''tax'') (incomeRound started2))))"

definition blocked1 :: game where
  "blocked1 = sent 0 (blockWith ''contessa'') aimed1"

definition aimed2 :: game where
  "aimed2 = sent 0 (playOn ''assassinate'' 1) (incomeRound started2)"

definition blocked2 :: game where
  "blocked2 = sent 1 (blockWith ''contessa'') aimed2"

text \<open>The lobby of seven after the first participant has left through its handle.\<close>

definition rewired :: game where
  "rewired = final (handle_playerLeft exampleConfig 0 lobby7)"

section \<open>Counting the cards\<close>



definition held :: "game \<Rightarrow> nat" where
  "held g = sum_list (map (\<lambda>p. length (influence p)) (players g))"

definition offered :: "game \<Rightarrow> role list" where
  "offered g = (case exchangeOptions (state g) of None \<Rightarrow> [] | Some opts \<Rightarrow> opts)"

text \<open>
  \<open>playAction\<close> builds the offer of an exchange from the exchanger's own unrevealed roles
  and two cards popped from the deck; the own roles stay in the hand while the offer is
  open. \<open>drawn\<close> is the part of the offer that came from the deck.
\<close>

definition unrev :: "game \<Rightarrow> jsnum \<Rightarrow> nat" where
  "unrev g x = (case playerAt g x of None \<Rightarrow> 0 | Some p \<Rightarrow> length (getInfluence p))"

definition drawn :: "game \<Rightarrow> nat" where
  "drawn g =
     (if name (state g) = EXCHANGE then length (offered g) - unrev g (playerIdx (state g))
      else 0)"



text \<open>
  The invariant of a started game. Every seat's \<open>influenceCount\<close> is its number of
  unrevealed slots and an observer has no slots; an open exchange has its exchanger and an
  offer that holds the exchanger's own cards; and, until the game is won, the slots, the
  deck and the cards drawn into an offer make up three cards for each role.
\<close>

definition seatOk :: "player \<Rightarrow> bool" where
  "seatOk p = ((isObserver p \<longrightarrow> influence p = [])
               \<and> influenceCount p = int (length (getInfluence p)))"

definition offerOk :: "game \<Rightarrow> bool" where
  "offerOk g =
     (name (state g) = EXCHANGE \<longrightarrow>
        playerAt g (playerIdx (state g)) \<noteq> None
        \<and> unrev g (playerIdx (state g)) \<le> length (offered g)
        \<and> exchangeOptions (state g) \<noteq> None)"

definition conserved :: "game \<Rightarrow> bool" where
  "conserved g = (held g + length (deck g) + drawn g = 3 * length (roles g))"

definition inPlay :: "game \<Rightarrow> bool" where
  "inPlay g =
     (length (roles g) = 5 \<and> gameTracker g \<and> list_all seatOk (players g) \<and> held g \<le> 12
      \<and> name (state g) \<noteq> WAITING_FOR_PLAYERS \<and> name (state g) \<noteq> DESTROYED
      \<and> offerOk g
      \<and> (if name (state g) = GAME_WON then blockingRole (state g) = None else conserved g))"

text \<open>
  The invariant of the lobby: no roles yet, every player has its two empty slots, and at
  most six seats are players. And a game that is over: won, or destroyed by \<open>destroyGame\<close>.
\<close>

definition lobbySeat :: "player \<Rightarrow> bool" where
  "lobbySeat p = (seatOk p \<and> length (influence p) = (if isObserver p then 0 else 2))"

definition inLobby :: "game \<Rightarrow> bool" where
  "inLobby g =
     (roles g = [] \<and> \<not> gameTracker g
      \<and> (name (state g) = WAITING_FOR_PLAYERS \<or> name (state g) = DESTROYED)
      \<and> list_all lobbySeat (players g)
      \<and> length (filter (\<lambda>p. \<not> isObserver p) (players g)) \<le> 6)"

definition over :: "game \<Rightarrow> bool" where
  "over g = (name (state g) = GAME_WON \<or> state g = newState DESTROYED)"

text \<open>
  What holds of the game that a call ends in: \<open>Q\<close> of the value and the game when it
  returns, \<open>P\<close> of the game when it throws.
\<close>

definition post :: "('a \<Rightarrow> game \<Rightarrow> bool) \<Rightarrow> (game \<Rightarrow> bool) \<Rightarrow> 'a result \<Rightarrow> bool" where
  "post Q P r = (case r of Ok a g \<Rightarrow> Q a g | Throw e g \<Rightarrow> P g)"









section \<open>Stale commands (C2)\<close>

text \<open>
  C2. For every seat index and every payload whose \<open>stateId\<close> differs from the game's,
  \<open>command\<close> throws, and the game at the throw is the game it was given: players, cash,
  influence, deck, state and \<open>stateId\<close> are all unchanged.
\<close>

theorem stale_command_rejected:
  "p_stateId c \<noteq> stateId g \<Longrightarrow>
     rejected (command cfg pIdx c g) \<and> final (command cfg pIdx c g) = g"
  by (simp add: command_def rejected_def final_def)

theorem stale_command_rejected_witness:
  "p_stateId ((request ''start'')\<lparr>p_stateId := 1\<rparr>) \<noteq> stateId lobby2
   \<and> rejected (command exampleConfig 0 ((request ''start'')\<lparr>p_stateId := 1\<rparr>) lobby2)
   \<and> final (command exampleConfig 0 ((request ''start'')\<lparr>p_stateId := 1\<rparr>) lobby2) = lobby2"
proof -
  have stale: "p_stateId ((request ''start'')\<lparr>p_stateId := 1\<rparr>) \<noteq> stateId lobby2"
    by code_simp
  from stale_command_rejected [OF stale, of exampleConfig 0] stale show ?thesis
    by blast
qed

section \<open>The forced coup (C10)\<close>

text \<open>
  C10. A play-action command of a seat whose cash is at least 10, naming any action
  other than coup, throws and leaves the game as it was, whatever the state is; so on
  that seat's turn only a coup can be accepted.
\<close>

theorem must_coup_with_ten_cash:
  assumes "pIdx < length (players g)"
    and "cash (players g ! pIdx) \<ge> 10"
    and "p_command c = ''play-action''"
    and "p_action c \<noteq> Some ''coup''"
  shows "rejected (command cfg pIdx c g) \<and> final (command cfg pIdx c g) = g"
  using assms
  by (auto simp: command_def command_play_action_def andThen_def rejected_def final_def
           split: option.splits)

theorem must_coup_with_ten_cash_witness:
  "0 < length (players rich2) \<and> cash (players rich2 ! 0) \<ge> 10
   \<and> p_command ((play ''income'')\<lparr>p_stateId := stateId rich2\<rparr>) = ''play-action''
   \<and> p_action ((play ''income'')\<lparr>p_stateId := stateId rich2\<rparr>) \<noteq> Some ''coup''
   \<and> playerIdx (state rich2) = Num 0
   \<and> send 0 (play ''income'') rich2 = Throw (GameException ''You must coup with >= 10 cash'') rich2
   \<and> rejected (command exampleConfig 0 ((play ''income'')\<lparr>p_stateId := stateId rich2\<rparr>) rich2)
   \<and> final (command exampleConfig 0 ((play ''income'')\<lparr>p_stateId := stateId rich2\<rparr>) rich2) = rich2"
proof -
  have h1: "0 < length (players rich2)"
    by code_simp
  have h2: "cash (players rich2 ! 0) \<ge> 10"
    by code_simp
  have h3: "p_command ((play ''income'')\<lparr>p_stateId := stateId rich2\<rparr>) = ''play-action''"
    by (simp add: play_def request_def)
  have h4: "p_action ((play ''income'')\<lparr>p_stateId := stateId rich2\<rparr>) \<noteq> Some ''coup''"
    by (simp add: play_def request_def)
  have h5: "playerIdx (state rich2) = Num 0"
    by code_simp
  have h6: "send 0 (play ''income'') rich2
            = Throw (GameException ''You must coup with >= 10 cash'') rich2"
    by code_simp
  from must_coup_with_ten_cash [OF h1 h2 h3 h4, of exampleConfig] h1 h2 h3 h4 h5 h6
  show ?thesis
    by blast
qed

section \<open>Starting the game (C5)\<close>

lemma sameSeats_refl: "sameSeats g g"
  by (simp add: sameSeats_def)

lemma sameSeats_trans: "sameSeats g g1 \<Longrightarrow> sameSeats g1 g2 \<Longrightarrow> sameSeats g g2"
  by (simp add: sameSeats_def)

lemma sameSeats_length: "sameSeats g g' \<Longrightarrow> length (players g') = length (players g)"
  unfolding sameSeats_def by (metis length_map)

lemma sameSeats_nth:
  assumes "sameSeats g g'" "i < length (players g)"
  shows "isObserver (players g' ! i) = isObserver (players g ! i)
         \<and> length (influence (players g' ! i)) = length (influence (players g ! i))"
proof -
  have len: "length (players g') = length (players g)"
    using assms(1) by (rule sameSeats_length)
  have "map (\<lambda>p. (isObserver p, length (influence p))) (players g') ! i
        = map (\<lambda>p. (isObserver p, length (influence p))) (players g) ! i"
    using assms(1) by (simp add: sameSeats_def)
  then show ?thesis
    using assms(2) len by simp
qed

lemma dealSlot_ok:
  assumes "i < length (players g)" "j < length (influence (players g ! i))"
  shows "\<exists>g'. dealSlot i j g = Ok () g' \<and> sameSeats g g'"
proof -
  have "map (\<lambda>p. (isObserver p, length (influence p)))
          ((players g)[i := setRole j r (players g ! i)])
        = map (\<lambda>p. (isObserver p, length (influence p))) (players g)" for r
    using assms(1)
    by (simp add: map_update setRole_def list_update_same_conv)
  then show ?thesis
    using assms by (simp add: dealSlot_def updPlayer_def sameSeats_def)
qed

lemma dealLoop_ok:
  assumes "\<forall>i \<in> set is. i < length (players g)
             \<and> (isObserver (players g ! i) \<or> 2 \<le> length (influence (players g ! i)))"
  shows "\<exists>g'. dealLoop is g = Ok () g' \<and> sameSeats g g'"
  using assms
proof (induction "is" arbitrary: g)
  case Nil
  then show ?case by (simp add: sameSeats_refl)
next
  case (Cons i "is")
  show ?case
  proof (cases "isObserver (players g ! i)")
    case True
    with Cons show ?thesis by simp
  next
    case False
    with Cons.prems have i: "i < length (players g)" and two: "2 \<le> length (influence (players g ! i))"
      by auto
    have "0 < length (influence (players g ! i))"
      using two by (cases "influence (players g ! i)") simp_all
    from dealSlot_ok [OF i this] obtain g1
      where g1: "dealSlot i 0 g = Ok () g1" "sameSeats g g1" by auto
    have i1: "i < length (players g1)"
      using i sameSeats_length [OF g1(2)] by simp
    have "1 < length (influence (players g1 ! i))"
      using sameSeats_nth [OF g1(2) i] two by simp
    from dealSlot_ok [OF i1 this] obtain g2
      where g2: "dealSlot i 1 g1 = Ok () g2" "sameSeats g1 g2" by auto
    have s02: "sameSeats g g2"
      using g1(2) g2(2) by (rule sameSeats_trans)
    have "\<forall>k \<in> set is. k < length (players g2)
             \<and> (isObserver (players g2 ! k) \<or> 2 \<le> length (influence (players g2 ! k)))"
      using Cons.prems sameSeats_length [OF s02] sameSeats_nth [OF s02] by simp
    from Cons.IH [OF this] obtain g' where g': "dealLoop is g2 = Ok () g'" "sameSeats g2 g'"
      by auto
    show ?thesis
      using False g1(1) g2(1) g' s02 sameSeats_trans
      by (auto simp: andThen_def)
  qed
qed

lemma shuffle_keeps: "sameSeats g (snd (shuffle cfg xs g))"
  by (simp add: shuffle_def sameSeats_def)

lemma shuffle_players: "players (snd (shuffle cfg xs g)) = players g"
  by (simp add: shuffle_def)

lemma firstTurn_state:
  "name (state (firstTurn cfg g)) = START_OF_TURN \<and> stateId (firstTurn cfg g) = stateId g"
  by (simp add: firstTurn_def Let_def split_beta setState_def newState_def rand_def
           split: option.split)

lemma start_ok:
  assumes "name (state g) = WAITING_FOR_PLAYERS" "2 \<le> numPlayers g" "seatsDealable g"
  shows "\<exists>g'. start cfg gt g = Ok () g' \<and> name (state g') = START_OF_TURN
              \<and> stateId g' = stateId g"
proof -
  let ?g1 = "g\<lparr>roles := gameRoles gt\<rparr>"
  let ?g2 = "snd (buildDeck cfg ?g1)"
  let ?g3 = "?g2\<lparr>deck := fst (buildDeck cfg ?g1), gameTracker := True\<rparr>"
  have p3: "players ?g3 = players g"
    by (simp add: buildDeck_def shuffle_players)
  have s3: "stateId ?g3 = stateId g"
    by (simp add: buildDeck_def shuffle_def)
  have "\<forall>i \<in> set [0..<numPlayers ?g2]. i < length (players ?g3)
             \<and> (isObserver (players ?g3 ! i) \<or> 2 \<le> length (influence (players ?g3 ! i)))"
    using assms(3) unfolding p3
    by (simp add: seatsDealable_def list_all_length numPlayers_def buildDeck_def shuffle_players)
  from dealLoop_ok [OF this] obtain g4
    where g4: "dealLoop [0..<numPlayers ?g2] ?g3 = Ok () g4" "sameSeats ?g3 g4"
    by auto
  have sid: "stateId g4 = stateId g"
    using g4(2) s3 by (simp add: sameSeats_def)
  have "start cfg gt g = Ok () (firstTurn cfg g4)"
    using assms(1,2) g4(1)
    by (simp add: start_def MIN_PLAYERS_def Let_def split_beta andThen_def)
  then show ?thesis
    using sid firstTurn_state by simp
qed

text \<open>
  C5, as the code has it. A start command of an existing seat with the current \<open>stateId\<close>
  is rejected with "Incorrect state", the game unchanged, when the state is not
  WaitingForPlayers. From WaitingForPlayers with at least two seats that are not observers
  it succeeds, enters StartOfTurn and broadcasts once. From WaitingForPlayers with fewer
  than two seats in all it is not rejected: it is accepted without an error, nothing
  changes, and the broadcast still happens (\<open>stateId\<close> goes up by one). A lobby of two or
  more seats of which fewer than two are not observers is left out of the statement.
\<close>

theorem start_command:
  assumes "pIdx < length (players g)" and "p_stateId c = stateId g"
    and "p_command c = ''start''"
  shows "(name (state g) \<noteq> WAITING_FOR_PLAYERS \<longrightarrow>
            command cfg pIdx c g = Throw (GameException ''Incorrect state'') g)
       \<and> (name (state g) = WAITING_FOR_PLAYERS \<and> length (players g) < 2 \<longrightarrow>
            command cfg pIdx c g = Ok () (emitState g))
       \<and> (name (state g) = WAITING_FOR_PLAYERS
           \<and> 2 \<le> length (filter (\<lambda>p. \<not> isObserver p) (players g)) \<and> seatsDealable g \<longrightarrow>
            (\<exists>g'. command cfg pIdx c g = Ok () g' \<and> name (state g') = START_OF_TURN
                   \<and> stateId g' = stateId g + 1))"
proof (intro conjI impI)
  assume "name (state g) \<noteq> WAITING_FOR_PLAYERS"
  then show "command cfg pIdx c g = Throw (GameException ''Incorrect state'') g"
    using assms by (simp add: command_def start_def andThen_def)
next
  assume "name (state g) = WAITING_FOR_PLAYERS \<and> length (players g) < 2"
  then show "command cfg pIdx c g = Ok () (emitState g)"
    using assms by (simp add: command_def start_def andThen_def MIN_PLAYERS_def numPlayers_def)
next
  assume a: "name (state g) = WAITING_FOR_PLAYERS
             \<and> 2 \<le> length (filter (\<lambda>p. \<not> isObserver p) (players g)) \<and> seatsDealable g"
  have le: "length (filter (\<lambda>p. \<not> isObserver p) (players g)) \<le> length (players g)"
    by (rule length_filter_le)
  from a have "2 \<le> length (filter (\<lambda>p. \<not> isObserver p) (players g))"
    by blast
  from this le have "2 \<le> length (players g)"
    by (rule order_trans)
  then have "2 \<le> numPlayers g"
    by (simp add: numPlayers_def)
  with a obtain g' where "start cfg (p_gameType c) g = Ok () g'"
      "name (state g') = START_OF_TURN" "stateId g' = stateId g"
    using start_ok by blast
  then show "\<exists>g'. command cfg pIdx c g = Ok () g' \<and> name (state g') = START_OF_TURN
                   \<and> stateId g' = stateId g + 1"
    using assms by (simp add: command_def andThen_def emitState_def)
qed

theorem start_command_witness:
  "name (state started2) \<noteq> WAITING_FOR_PLAYERS
   \<and> send 0 (request ''start'') started2 = Throw (GameException ''Incorrect state'') started2
   \<and> name (state lobby1) = WAITING_FOR_PLAYERS \<and> length (players lobby1) < 2
   \<and> send 0 (request ''start'') lobby1 = Ok () (emitState lobby1)
   \<and> name (state lobby2) = WAITING_FOR_PLAYERS
   \<and> 2 \<le> length (filter (\<lambda>p. \<not> isObserver p) (players lobby2))
   \<and> seatsDealable lobby2
   \<and> (\<exists>g'. send 0 (request ''start'') lobby2 = Ok () g' \<and> name (state g') = START_OF_TURN
             \<and> stateId g' = stateId lobby2 + 1)"
proof -
  have c: "p_stateId ((request ''start'')\<lparr>p_stateId := stateId g\<rparr>) = stateId g"
          "p_command ((request ''start'')\<lparr>p_stateId := stateId g\<rparr>) = ''start''" for g
    by (simp_all add: request_def)
  have a1: "0 < length (players started2)" by code_simp
  have a2: "name (state started2) \<noteq> WAITING_FOR_PLAYERS" by code_simp
  have b1: "0 < length (players lobby1)" by code_simp
  have b2: "name (state lobby1) = WAITING_FOR_PLAYERS \<and> length (players lobby1) < 2"
    by code_simp
  have d1: "0 < length (players lobby2)" by code_simp
  have d2: "name (state lobby2) = WAITING_FOR_PLAYERS
            \<and> 2 \<le> length (filter (\<lambda>p. \<not> isObserver p) (players lobby2))
            \<and> seatsDealable lobby2" by code_simp
  from start_command [OF a1 c, of exampleConfig] a2
       start_command [OF b1 c, of exampleConfig] b2
       start_command [OF d1 c, of exampleConfig] d2
  show ?thesis
    unfolding send_def by blast
qed

text \<open>
  The claim as stated fails with a single seat in the lobby: the start command is not
  rejected, the game stays in WaitingForPlayers, and a broadcast happens.
\<close>

theorem start_counterexample:
  "name (state lobby1) = WAITING_FOR_PLAYERS
   \<and> length (filter (\<lambda>p. \<not> isObserver p) (players lobby1)) = 1
   \<and> rejected (send 0 (request ''start'') lobby1) = False
   \<and> send 0 (request ''start'') lobby1 = Ok () (emitState lobby1)
   \<and> name (state (sent 0 (request ''start'') lobby1)) = WAITING_FOR_PLAYERS
   \<and> stateId (sent 0 (request ''start'') lobby1) = stateId lobby1 + 1"
  by code_simp

section \<open>Masking (C4)\<close>







section \<open>The broadcast id (C3)\<close>

text \<open>
  \<open>stateId\<close> changes in \<open>emitState\<close> only. No function called by \<open>command\<close> reaches
  \<open>emitState\<close> except \<open>playerJoined\<close> and \<open>playerLeft\<close>, so each of them returns or throws
  with the \<open>stateId\<close> it was given.
\<close>

lemma final_simps [simp]: "final (Ok a g) = g" "final (Throw e g) = g"
  by (simp_all add: final_def)

lemma rejected_simps [simp]: "rejected (Ok a g) = False" "rejected (Throw e g) = True"
  by (simp_all add: rejected_def)

lemma stateId_andThen:
  assumes "stateId (final r) = n"
    and "\<And>a g'. stateId g' = n \<Longrightarrow> stateId (final (f a g')) = n"
  shows "stateId (final (andThen r f)) = n"
  using assms by (cases r) (simp_all add: andThen_def)

lemma stateId_updPlayer [simp]: "stateId (updPlayer x f g) = stateId g"
  by (cases x) (simp_all add: updPlayer_def)

lemma stateId_setState [simp]: "stateId (setState s g) = stateId g"
  by (simp add: setState_def)

lemma stateId_shuffle [simp]: "stateId (snd (shuffle cfg xs g)) = stateId g"
  by (simp add: shuffle_def)

lemma stateId_rand [simp]: "stateId (snd (rand cfg n g)) = stateId g"
  by (simp add: rand_def)

lemma stateId_swapRole [simp]: "stateId (snd (swapRole cfg r g)) = stateId g"
  by (simp add: swapRole_def Let_def split_beta)

lemma stateId_resetAllows [simp]: "stateId (resetAllows i g) = stateId g"
  by (simp add: resetAllows_def)

lemma stateId_nextTurn [simp]: "stateId (final (nextTurn g)) = stateId g"
  by (simp add: nextTurn_def Let_def split: option.split)

lemma stateId_checkForGameEnd [simp]: "stateId (final (checkForGameEnd g)) = stateId g"
  by (simp add: checkForGameEnd_def Let_def split: option.split)

lemma stateId_afterPlayerDeath [simp]: "stateId (final (afterPlayerDeath i g)) = stateId g"
  unfolding afterPlayerDeath_def
  by (auto intro!: stateId_andThen)

lemma stateId_playAction [simp]:
  "stateId (final (playAction cfg p a t b g)) = stateId g"
  unfolding playAction_def
  apply (simp add: Let_def split_beta split: option.split)
  apply (intro conjI impI allI stateId_andThen)
  apply simp_all
  done

lemma stateId_afterSuccessfulChallenge [simp]:
  "stateId (final (afterSuccessfulChallenge cfg g)) = stateId g"
  by (simp add: afterSuccessfulChallenge_def)

lemma stateId_afterIncorrectChallenge [simp]:
  "stateId (final (afterIncorrectChallenge cfg g)) = stateId g"
  by (simp add: afterIncorrectChallenge_def split: option.split)

lemma stateId_challenge [simp]:
  "stateId (final (challenge cfg p c r g)) = stateId g"
  unfolding challenge_def
  apply (simp add: Let_def split_beta split: option.split)
  apply (intro conjI impI allI stateId_andThen)
  apply simp_all
  done

lemma stateId_allow [simp]:
  "stateId (final (allow cfg p g)) = stateId g"
  unfolding allow_def
  apply (simp add: Let_def split_beta split: option.split)
  apply (intro conjI impI allI stateId_andThen)
  apply simp_all
  done

lemma stateId_command_play_action [simp]:
  "stateId (final (command_play_action cfg p c g)) = stateId g"
  unfolding command_play_action_def
  apply (simp add: Let_def split_beta split: option.split)
  apply (intro conjI impI allI stateId_andThen)
  apply simp_all
  done

lemma stateId_command_challenge [simp]:
  "stateId (final (command_challenge cfg p g)) = stateId g"
  unfolding command_challenge_def
  by (simp add: Let_def split_beta split: option.split)

lemma stateId_command_reveal [simp]:
  "stateId (final (command_reveal cfg p c g)) = stateId g"
  unfolding command_reveal_def
  apply (simp add: Let_def split_beta split: option.split)
  apply (intro conjI impI allI stateId_andThen)
  apply simp_all
  done

lemma stateId_command_block [simp]:
  "stateId (final (command_block cfg p c g)) = stateId g"
  unfolding command_block_def
  by (simp add: Let_def split_beta split: option.split)

lemma stateId_command_exchange [simp]:
  "stateId (final (command_exchange cfg p c g)) = stateId g"
  unfolding command_exchange_def
  by (simp add: Let_def split_beta split: option.split)

lemma stateId_command_interrogate [simp]:
  "stateId (final (command_interrogate cfg p c g)) = stateId g"
  unfolding command_interrogate_def
  by (simp add: Let_def split_beta split: option.split)

lemma stateId_dealSlot [simp]: "stateId (final (dealSlot i j g)) = stateId g"
  by (simp add: dealSlot_def)

lemma stateId_dealLoop [simp]: "stateId (final (dealLoop is g)) = stateId g"
proof (induction "is" arbitrary: g)
  case Nil
  show ?case by simp
next
  case (Cons i "is")
  show ?case
    by (auto simp: Cons.IH intro!: stateId_andThen)
qed

lemma stateId_firstTurn [simp]: "stateId (firstTurn cfg g) = stateId g"
  by (simp add: firstTurn_def Let_def split_beta rand_def split: option.split)

lemma stateId_start [simp]: "stateId (final (start cfg gt g)) = stateId g"
  unfolding start_def
  apply (simp add: Let_def split_beta buildDeck_def)
  apply (intro conjI impI allI stateId_andThen)
  apply simp_all
  done

lemma bumps_simps [simp]:
  "bumps k g (Ok a g') = (stateId g' = stateId g + k)"
  "bumps k g (Throw e g') = (stateId g' = stateId g)"
  by (simp_all add: bumps_def)

lemma bumps_andThen:
  assumes "stateId (final r) = stateId g"
    and "\<And>a g'. stateId g' = stateId g \<Longrightarrow> bumps k g (f a g')"
  shows "bumps k g (andThen r f)"
  using assms by (cases r) (simp_all add: andThen_def)

lemma bumps_emit:
  "stateId (final r) = stateId g \<Longrightarrow> bumps 1 g (andThen r (\<lambda>u g'. Ok () (emitState g')))"
  by (rule bumps_andThen) (simp_all add: emitState_def)

lemma stateId_destroyGame [simp]: "stateId (destroyGame g) = stateId g"
  by (simp add: destroyGame_def)

lemma stateId_rewire [simp]: "stateId (rewire i g) = stateId g"
  by (simp add: rewire_def)

lemma playerLeft_bumps: "bumps 1 g (playerLeft cfg i g)"
  unfolding playerLeft_def
  by (auto simp: Let_def emitState_def intro!: bumps_andThen stateId_andThen)

lemma playerLeft_lobby:
  assumes "name (state g) = WAITING_FOR_PLAYERS" "playerLeft cfg i g = Ok u g'"
  shows "Suc (length (players g')) = length (players g)"
  using assms
  by (auto simp: playerLeft_def andThen_def Let_def emitState_def rewire_def destroyGame_def
        setState_def splice1_def numPlayers_def split: if_splits)

lemma removeAiPlayer_cases:
  "removeAiPlayer cfg g = Ok () g \<or> (\<exists>i. removeAiPlayer cfg g = playerLeft cfg i g)"
  by (auto simp: removeAiPlayer_def split: option.split)

lemma stateId_createAiPlayer [simp]: "stateId (createAiPlayer cfg g) = stateId g + 1"
  by (simp add: createAiPlayer_def playerJoined_def Let_def split_beta emitState_def)

lemma command_ordinary:
  "p_command c \<notin> {''allow'', ''add-ai'', ''remove-ai''} \<Longrightarrow> bumps 1 g (command cfg pIdx c g)"
  unfolding command_def
  by (simp add: bumps_emit)

lemma command_allow:
  assumes "p_command c = ''allow''"
  shows "bumps 1 g (command cfg pIdx c g)
         \<or> command cfg pIdx c g = Ok () (g\<lparr>allows := insert pIdx (allows g)\<rparr>)"
proof (cases "allow cfg pIdx g")
  case (Ok changed g')
  have sid: "stateId g' = stateId g"
    using stateId_allow [of cfg pIdx g] Ok by simp
  show ?thesis
  proof (cases changed)
    case True
    with Ok sid show ?thesis
      using assms by (simp add: command_def andThen_def emitState_def)
  next
    case False
    have "g' = g\<lparr>allows := insert pIdx (allows g)\<rparr>"
      using Ok False
      by (auto simp: allow_def Let_def andThen_def split: if_splits result.splits)
    with Ok False show ?thesis
      using assms by (simp add: command_def andThen_def)
  qed
next
  case (Throw e g')
  have "stateId g' = stateId g"
    using stateId_allow [of cfg pIdx g] Throw by simp
  with Throw show ?thesis
    using assms by (simp add: command_def andThen_def)
qed

lemma command_add_ai:
  "p_command c = ''add-ai'' \<Longrightarrow> bumps 2 g (command cfg pIdx c g)"
  by (simp add: command_def emitState_def)

lemma command_remove_ai:
  assumes "p_command c = ''remove-ai''"
  shows "command cfg pIdx c g = Ok () (emitState g)
         \<or> bumps 2 g (command cfg pIdx c g)
            \<and> (\<not> rejected (command cfg pIdx c g) \<longrightarrow>
                 Suc (length (players (final (command cfg pIdx c g)))) = length (players g))"
proof -
  consider "pIdx \<ge> length (players g) \<or> p_stateId c \<noteq> stateId g
            \<or> name (state g) \<noteq> WAITING_FOR_PLAYERS"
    | "pIdx < length (players g)" "p_stateId c = stateId g"
      "name (state g) = WAITING_FOR_PLAYERS" "removeAiPlayer cfg g = Ok () g"
    | i where "pIdx < length (players g)" "p_stateId c = stateId g"
      "name (state g) = WAITING_FOR_PLAYERS" "removeAiPlayer cfg g = playerLeft cfg i g"
    using removeAiPlayer_cases [of cfg g] by fastforce
  then show ?thesis
  proof cases
    case 1
    then show ?thesis
      using assms by (auto simp: command_def)
  next
    case 2
    then show ?thesis
      using assms by (simp add: command_def andThen_def)
  next
    case 3
    show ?thesis
    proof (cases "playerLeft cfg i g")
      case (Ok u g')
      have "stateId g' = stateId g + 1"
        using playerLeft_bumps [of g cfg i] Ok by simp
      moreover have "Suc (length (players g')) = length (players g)"
        using playerLeft_lobby [OF 3(3) Ok] .
      ultimately show ?thesis
        using assms 3 Ok by (simp add: command_def andThen_def emitState_def)
    next
      case (Throw e g')
      have "stateId g' = stateId g"
        using playerLeft_bumps [of g cfg i] Throw by simp
      then show ?thesis
        using assms 3 Throw by (simp add: command_def andThen_def)
    qed
  qed
qed

lemma payload_simps:
  "p_command ((request n)\<lparr>p_stateId := k\<rparr>) = n"
  "p_command ((play a)\<lparr>p_stateId := k\<rparr>) = ''play-action''"
  by (simp_all add: request_def play_def)

lemma command_allow_open:
  assumes "p_command c = ''allow''" "\<not> rejected (command cfg pIdx c g)"
    "name (state g) \<noteq> FINAL_ACTION_RESPONSE"
    "\<not> everyoneAllows (g\<lparr>allows := insert pIdx (allows g)\<rparr>)"
  shows "final (command cfg pIdx c g) = g\<lparr>allows := insert pIdx (allows g)\<rparr>"
  using assms
  by (auto simp: command_def allow_def Let_def andThen_def split: if_splits)

lemma command_allow_closed:
  assumes "p_command c = ''allow''" "\<not> rejected (command cfg pIdx c g)"
    "name (state g) = FINAL_ACTION_RESPONSE
     \<or> everyoneAllows (g\<lparr>allows := insert pIdx (allows g)\<rparr>)"
  shows "stateId (final (command cfg pIdx c g)) = stateId g + 1"
proof (cases "allow cfg pIdx g")
  case (Throw e g')
  then show ?thesis
    using assms by (auto simp: command_def andThen_def split: if_splits)
next
  case (Ok changed g')
  have sid: "stateId g' = stateId g"
    using stateId_allow [of cfg pIdx g] Ok by simp
  have changed
  proof (rule ccontr)
    assume "\<not> changed"
    then have "allow cfg pIdx g = Ok False g'"
      using Ok by simp
    then show False
      using assms(3)
      by (auto simp: allow_def Let_def andThen_def split: if_splits result.splits)
  qed
  then show ?thesis
    using Ok sid assms(1,2)
    by (auto simp: command_def andThen_def emitState_def split: if_splits)
qed

lemma removeAiPlayer_none:
  "find (\<lambda>i. case conns g ! i of None \<Rightarrow> False | Some x \<Rightarrow> c_ai x)
     (rev [1..<length (conns g)]) = None \<Longrightarrow> removeAiPlayer cfg g = Ok () g"
  by (simp add: removeAiPlayer_def)

lemma removeAiPlayer_some:
  "find (\<lambda>i. case conns g ! i of None \<Rightarrow> False | Some x \<Rightarrow> c_ai x)
     (rev [1..<length (conns g)]) \<noteq> None \<Longrightarrow> \<exists>i. removeAiPlayer cfg g = playerLeft cfg i g"
  by (auto simp: removeAiPlayer_def)

lemma command_remove_none:
  assumes "p_command c = ''remove-ai''" "\<not> rejected (command cfg pIdx c g)"
    "find (\<lambda>i. case conns g ! i of None \<Rightarrow> False | Some x \<Rightarrow> c_ai x)
       (rev [1..<length (conns g)]) = None"
  shows "final (command cfg pIdx c g) = emitState g"
  using assms removeAiPlayer_none [OF assms(3), of cfg]
  by (auto simp: command_def andThen_def split: if_splits)

lemma command_remove_some:
  assumes "p_command c = ''remove-ai''" "\<not> rejected (command cfg pIdx c g)"
    "find (\<lambda>i. case conns g ! i of None \<Rightarrow> False | Some x \<Rightarrow> c_ai x)
       (rev [1..<length (conns g)]) \<noteq> None"
  shows "stateId (final (command cfg pIdx c g)) = stateId g + 2
         \<and> Suc (length (players (final (command cfg pIdx c g)))) = length (players g)"
proof -
  from removeAiPlayer_some [OF assms(3)] obtain i
    where i: "removeAiPlayer cfg g = playerLeft cfg i g" by blast
  have w: "name (state g) = WAITING_FOR_PLAYERS"
    using assms(1,2) by (auto simp: command_def split: if_splits)
  show ?thesis
  proof (cases "playerLeft cfg i g")
    case (Ok u g')
    have "stateId g' = stateId g + 1"
      using playerLeft_bumps [of g cfg i] Ok by simp
    moreover have "Suc (length (players g')) = length (players g)"
      using playerLeft_lobby [OF w Ok] .
    ultimately show ?thesis
      using assms(1,2) i Ok
      by (auto simp: command_def andThen_def emitState_def split: if_splits)
  next
    case (Throw e g')
    then show ?thesis
      using assms(1,2) i by (auto simp: command_def andThen_def split: if_splits)
  qed
qed

text \<open>
  C3, as the code has it. A rejected command leaves \<open>stateId\<close> unchanged, and \<open>stateId\<close>
  never decreases. A command that succeeds increases \<open>stateId\<close> by exactly 1, with three
  exceptions. An allow that leaves the response window open, that is, one given outside
  FinalActionResponse while some live seat has yet to allow, only records the allow and
  broadcasts nothing: \<open>stateId\<close> stays; every other successful allow increases it by 1.
  An add-ai increases \<open>stateId\<close> by 2, since the join of the AI broadcasts before the
  command does. A remove-ai that finds an AI seat above index 0 increases it by 2, since
  the leave broadcasts before the command does; one that finds none increases it by 1.
\<close>

theorem stateId_steps:
  "(rejected (command cfg pIdx c g) \<longrightarrow> stateId (final (command cfg pIdx c g)) = stateId g)
   \<and> (\<not> rejected (command cfg pIdx c g) \<and> p_command c \<notin> {''allow'', ''add-ai'', ''remove-ai''}
        \<longrightarrow> stateId (final (command cfg pIdx c g)) = stateId g + 1)
   \<and> (\<not> rejected (command cfg pIdx c g) \<and> p_command c = ''allow''
       \<and> (name (state g) = FINAL_ACTION_RESPONSE
           \<or> everyoneAllows (g\<lparr>allows := insert pIdx (allows g)\<rparr>))
        \<longrightarrow> stateId (final (command cfg pIdx c g)) = stateId g + 1)
   \<and> (\<not> rejected (command cfg pIdx c g) \<and> p_command c = ''allow''
       \<and> name (state g) \<noteq> FINAL_ACTION_RESPONSE
       \<and> \<not> everyoneAllows (g\<lparr>allows := insert pIdx (allows g)\<rparr>)
        \<longrightarrow> final (command cfg pIdx c g) = g\<lparr>allows := insert pIdx (allows g)\<rparr>
            \<and> stateId (final (command cfg pIdx c g)) = stateId g)
   \<and> (\<not> rejected (command cfg pIdx c g) \<and> p_command c = ''add-ai''
        \<longrightarrow> stateId (final (command cfg pIdx c g)) = stateId g + 2)
   \<and> (\<not> rejected (command cfg pIdx c g) \<and> p_command c = ''remove-ai''
       \<and> find (\<lambda>i. case conns g ! i of None \<Rightarrow> False | Some x \<Rightarrow> c_ai x)
            (rev [1..<length (conns g)]) = None
        \<longrightarrow> final (command cfg pIdx c g) = emitState g
            \<and> stateId (final (command cfg pIdx c g)) = stateId g + 1)
   \<and> (\<not> rejected (command cfg pIdx c g) \<and> p_command c = ''remove-ai''
       \<and> find (\<lambda>i. case conns g ! i of None \<Rightarrow> False | Some x \<Rightarrow> c_ai x)
            (rev [1..<length (conns g)]) \<noteq> None
        \<longrightarrow> stateId (final (command cfg pIdx c g)) = stateId g + 2
            \<and> Suc (length (players (final (command cfg pIdx c g)))) = length (players g))
   \<and> stateId g \<le> stateId (final (command cfg pIdx c g))"
proof -
  let ?r = "command cfg pIdx c g"
  have rej: "rejected ?r \<longrightarrow> stateId (final ?r) = stateId g"
  proof -
    consider (ordinary) "p_command c \<notin> {''allow'', ''add-ai'', ''remove-ai''}"
      | (allow) "p_command c = ''allow''" | (add) "p_command c = ''add-ai''"
      | (remove) "p_command c = ''remove-ai''"
      by blast
    then show ?thesis
    proof cases
      case ordinary
      from command_ordinary [OF this, of g cfg pIdx] show ?thesis
        by (cases ?r) auto
    next
      case allow
      from command_allow [OF this, of g cfg pIdx] show ?thesis
        by (cases ?r) auto
    next
      case add
      from command_add_ai [OF this, of g cfg pIdx] show ?thesis
        by (cases ?r) auto
    next
      case remove
      from command_remove_ai [OF this, of cfg pIdx g] show ?thesis
        by (cases ?r) (auto simp: emitState_def)
    qed
  qed
  have ord: "\<not> rejected ?r \<and> p_command c \<notin> {''allow'', ''add-ai'', ''remove-ai''}
             \<longrightarrow> stateId (final ?r) = stateId g + 1"
    using command_ordinary [of c g cfg pIdx] by (cases ?r) auto
  have add: "\<not> rejected ?r \<and> p_command c = ''add-ai'' \<longrightarrow> stateId (final ?r) = stateId g + 2"
    using command_add_ai [of c g cfg pIdx] by (cases ?r) auto
  have mono: "stateId g \<le> stateId (final ?r)"
  proof (cases "rejected ?r")
    case True
    with rej show ?thesis by simp
  next
    case False
    consider (ordinary) "p_command c \<notin> {''allow'', ''add-ai'', ''remove-ai''}"
      | (allow) "p_command c = ''allow''" | (add) "p_command c = ''add-ai''"
      | (remove) "p_command c = ''remove-ai''"
      by blast
    then show ?thesis
    proof cases
      case ordinary
      with ord False show ?thesis by simp
    next
      case allow
      from command_allow [OF this, of g cfg pIdx] False show ?thesis
        by (cases ?r) auto
    next
      case add
      with \<open>\<not> rejected ?r \<and> p_command c = ''add-ai'' \<longrightarrow> _\<close> False show ?thesis by simp
    next
      case remove
      from command_remove_ai [OF this, of cfg pIdx g] False show ?thesis
        by (cases ?r) (auto simp: emitState_def)
    qed
  qed
  have opn: "\<not> rejected ?r \<and> p_command c = ''allow''
       \<and> name (state g) \<noteq> FINAL_ACTION_RESPONSE
       \<and> \<not> everyoneAllows (g\<lparr>allows := insert pIdx (allows g)\<rparr>)
        \<longrightarrow> final ?r = g\<lparr>allows := insert pIdx (allows g)\<rparr> \<and> stateId (final ?r) = stateId g"
    using command_allow_open [of c cfg pIdx g] by simp
  have none: "\<not> rejected ?r \<and> p_command c = ''remove-ai''
       \<and> find (\<lambda>i. case conns g ! i of None \<Rightarrow> False | Some x \<Rightarrow> c_ai x)
            (rev [1..<length (conns g)]) = None
        \<longrightarrow> final ?r = emitState g \<and> stateId (final ?r) = stateId g + 1"
    using command_remove_none [of c cfg pIdx g] by (simp add: emitState_def)
  show ?thesis
    using rej ord add mono opn none
      command_allow_closed [of c cfg pIdx g] command_remove_some [of c cfg pIdx g]
    by blast
qed

theorem stateId_steps_witness:
  "rejected (send 1 (play ''income'') started2)
   \<and> stateId (sent 1 (play ''income'') started2) = stateId started2
   \<and> \<not> rejected (send 0 (play ''income'') started2)
   \<and> stateId (sent 0 (play ''income'') started2) = stateId started2 + 1
   \<and> \<not> rejected (send 1 (request ''allow'') taxed3)
   \<and> name (state taxed3) = ACTION_RESPONSE
   \<and> \<not> everyoneAllows (taxed3\<lparr>allows := insert 1 (allows taxed3)\<rparr>)
   \<and> sent 1 (request ''allow'') taxed3 = taxed3\<lparr>allows := insert 1 (allows taxed3)\<rparr>
   \<and> stateId (sent 1 (request ''allow'') taxed3) = stateId taxed3
   \<and> \<not> rejected (send 2 (request ''allow'') (sent 1 (request ''allow'') taxed3))
   \<and> everyoneAllows ((sent 1 (request ''allow'') taxed3)
          \<lparr>allows := insert 2 (allows (sent 1 (request ''allow'') taxed3))\<rparr>)
   \<and> stateId (sent 2 (request ''allow'') (sent 1 (request ''allow'') taxed3))
       = stateId (sent 1 (request ''allow'') taxed3) + 1
   \<and> \<not> rejected (send 0 (request ''add-ai'') lobby1)
   \<and> stateId (sent 0 (request ''add-ai'') lobby1) = stateId lobby1 + 2
   \<and> \<not> rejected (send 0 (request ''remove-ai'') lobby2)
   \<and> find (\<lambda>i. case conns lobby2 ! i of None \<Rightarrow> False | Some x \<Rightarrow> c_ai x)
        (rev [1..<length (conns lobby2)]) = None
   \<and> sent 0 (request ''remove-ai'') lobby2 = emitState lobby2
   \<and> stateId (sent 0 (request ''remove-ai'') lobby2) = stateId lobby2 + 1
   \<and> \<not> rejected (send 0 (request ''remove-ai'') withRobot)
   \<and> find (\<lambda>i. case conns withRobot ! i of None \<Rightarrow> False | Some x \<Rightarrow> c_ai x)
        (rev [1..<length (conns withRobot)]) = Some 1
   \<and> stateId (sent 0 (request ''remove-ai'') withRobot) = stateId withRobot + 2
   \<and> Suc (length (players (sent 0 (request ''remove-ai'') withRobot)))
       = length (players withRobot)
   \<and> stateId withRobot \<le> stateId (sent 0 (request ''remove-ai'') withRobot)"
proof -
  let ?a1 = "sent 1 (request ''allow'') taxed3"
  have h1: "rejected (send 1 (play ''income'') started2)" by code_simp
  have h2: "\<not> rejected (send 0 (play ''income'') started2)" by code_simp
  have h3: "\<not> rejected (send 1 (request ''allow'') taxed3)" by code_simp
  have h3a: "name (state taxed3) = ACTION_RESPONSE" by code_simp
  have h3b: "name (state taxed3) \<noteq> FINAL_ACTION_RESPONSE" by code_simp
  have h3c: "\<not> everyoneAllows (taxed3\<lparr>allows := insert 1 (allows taxed3)\<rparr>)" by code_simp
  have h4: "\<not> rejected (send 2 (request ''allow'') ?a1)" by code_simp
  have h4a: "everyoneAllows (?a1\<lparr>allows := insert 2 (allows ?a1)\<rparr>)" by code_simp
  have h5: "\<not> rejected (send 0 (request ''add-ai'') lobby1)" by code_simp
  have h6: "\<not> rejected (send 0 (request ''remove-ai'') lobby2)" by code_simp
  have h6a: "find (\<lambda>i. case conns lobby2 ! i of None \<Rightarrow> False | Some x \<Rightarrow> c_ai x)
        (rev [1..<length (conns lobby2)]) = None" by code_simp
  have h7: "\<not> rejected (send 0 (request ''remove-ai'') withRobot)" by code_simp
  have h7a: "find (\<lambda>i. case conns withRobot ! i of None \<Rightarrow> False | Some x \<Rightarrow> c_ai x)
        (rev [1..<length (conns withRobot)]) = Some 1" by code_simp
  have h7b: "find (\<lambda>i. case conns withRobot ! i of None \<Rightarrow> False | Some x \<Rightarrow> c_ai x)
        (rev [1..<length (conns withRobot)]) \<noteq> None" using h7a by simp
  have n: "''play-action'' \<notin> {''allow'', ''add-ai'', ''remove-ai''}" by simp
  note T = stateId_steps [of exampleConfig]
  from T [of 1 "(play ''income'')\<lparr>p_stateId := stateId started2\<rparr>" started2] h1
  have c1: "stateId (sent 1 (play ''income'') started2) = stateId started2"
    unfolding sent_def send_def by simp
  from T [of 0 "(play ''income'')\<lparr>p_stateId := stateId started2\<rparr>" started2] h2 n
  have c2: "stateId (sent 0 (play ''income'') started2) = stateId started2 + 1"
    unfolding sent_def send_def payload_simps by simp
  from T [of 1 "(request ''allow'')\<lparr>p_stateId := stateId taxed3\<rparr>" taxed3] h3 h3b h3c
  have c3: "sent 1 (request ''allow'') taxed3 = taxed3\<lparr>allows := insert 1 (allows taxed3)\<rparr>
            \<and> stateId (sent 1 (request ''allow'') taxed3) = stateId taxed3"
    unfolding sent_def send_def payload_simps by simp
  from T [of 2 "(request ''allow'')\<lparr>p_stateId := stateId ?a1\<rparr>" ?a1] h4 h4a
  have c4: "stateId (sent 2 (request ''allow'') ?a1) = stateId ?a1 + 1"
    unfolding sent_def send_def payload_simps by simp
  from T [of 0 "(request ''add-ai'')\<lparr>p_stateId := stateId lobby1\<rparr>" lobby1] h5
  have c5: "stateId (sent 0 (request ''add-ai'') lobby1) = stateId lobby1 + 2"
    unfolding sent_def send_def payload_simps by simp
  from T [of 0 "(request ''remove-ai'')\<lparr>p_stateId := stateId lobby2\<rparr>" lobby2] h6 h6a
  have c6: "sent 0 (request ''remove-ai'') lobby2 = emitState lobby2
            \<and> stateId (sent 0 (request ''remove-ai'') lobby2) = stateId lobby2 + 1"
    unfolding sent_def send_def payload_simps by (simp add: emitState_def)
  from T [of 0 "(request ''remove-ai'')\<lparr>p_stateId := stateId withRobot\<rparr>" withRobot] h7 h7b
  have c7: "stateId (sent 0 (request ''remove-ai'') withRobot) = stateId withRobot + 2
          \<and> Suc (length (players (sent 0 (request ''remove-ai'') withRobot)))
              = length (players withRobot)
          \<and> stateId withRobot \<le> stateId (sent 0 (request ''remove-ai'') withRobot)"
    unfolding sent_def send_def payload_simps by simp
  note c3a = c3 [THEN conjunct1] and c3b = c3 [THEN conjunct2]
    and c6a = c6 [THEN conjunct1] and c6b = c6 [THEN conjunct2]
    and c7a = c7 [THEN conjunct1] and c7b = c7 [THEN conjunct2, THEN conjunct1]
    and c7c = c7 [THEN conjunct2, THEN conjunct2]
  show ?thesis
    by (intro conjI) fact+
qed


text \<open>
  The claim as stated fails for an allow that leaves the window open: with three seats,
  the allow of seat 1 succeeds while seat 2 has yet to answer, and \<open>stateId\<close> stays.
\<close>

theorem stateId_counterexample:
  "\<not> rejected (send 1 (request ''allow'') taxed3)
   \<and> stateId (sent 1 (request ''allow'') taxed3) = stateId taxed3"
  by code_simp

section \<open>The final chance to block (C6)\<close>

text \<open>
  C6. The claim lets only the original target block or allow in FinalActionResponse. The
  allow branch has that test; the block branch has none. In the window that the failed
  challenge of seat 2 opened for seat 0, the target of the steal, a block of seat 2 is
  accepted and enters BlockResponse with seat 2 as the blocker, while an allow of seat 2
  is rejected with the game unchanged.
\<close>

theorem final_block_by_other_seat:
  "name (state finalWindow) = FINAL_ACTION_RESPONSE
   \<and> playerIdx (state finalWindow) = Num 1 \<and> target (state finalWindow) = Num 0
   \<and> \<not> rejected (send 2 (blockWith ''captain'') finalWindow)
   \<and> name (state (sent 2 (blockWith ''captain'') finalWindow)) = BLOCK_RESPONSE
   \<and> target (state (sent 2 (blockWith ''captain'') finalWindow)) = Num 2
   \<and> stateId (sent 2 (blockWith ''captain'') finalWindow) = stateId finalWindow + 1
   \<and> send 2 (request ''allow'') finalWindow
       = Throw (GameException ''Only the targetted player can allow the action'') finalWindow"
  by code_simp

section \<open>A bluffed block of an assassination (C7)\<close>

lemma players_nextTurn [simp]: "players (final (nextTurn g)) = players g"
  by (simp add: nextTurn_def Let_def setState_def split: option.split)

lemma players_checkForGameEnd [simp]: "players (final (checkForGameEnd g)) = players g"
  by (simp add: checkForGameEnd_def Let_def setState_def split: option.split)

lemma players_andThen:
  assumes "P (players (final r))"
    and "\<And>a g'. P (players g') \<Longrightarrow> P (players (final (f a g')))"
  shows "P (players (final (andThen r f)))"
  using assms by (cases r) (simp_all add: andThen_def)

lemma players_afterPlayerDeath [simp]: "players (final (afterPlayerDeath i g)) = players g"
  unfolding afterPlayerDeath_def
  by (auto intro!: players_andThen [where P = "\<lambda>ps. ps = players g"])

lemma revealFirst_some:
  "filter (\<lambda>s. \<not> revealed s) ss \<noteq> [] \<Longrightarrow>
     \<exists>ss'. revealFirst ss = Some ss'
       \<and> length (filter (\<lambda>s. \<not> revealed s) ss') = length (filter (\<lambda>s. \<not> revealed s) ss) - 1"
  by (induction ss) auto

lemma revealFirst_none:
  "filter (\<lambda>s. \<not> revealed s) ss = [] \<Longrightarrow> revealFirst ss = None"
  by (induction ss) (auto split: if_splits)

lemma unrevealed_none: "length (filter (\<lambda>s. \<not> revealed s) ss) = 0 \<longleftrightarrow> list_all revealed ss"
  by (induction ss) auto

lemma oneLeft_reveal: "oneLeft p \<Longrightarrow> deadSeat (revealFirstInfluence p)"
proof -
  assume one: "oneLeft p"
  then have "filter (\<lambda>s. \<not> revealed s) (influence p) \<noteq> []"
    by (auto simp: oneLeft_def getInfluence_def)
  from revealFirst_some [OF this] obtain ss' where ss': "revealFirst (influence p) = Some ss'"
      "length (filter (\<lambda>s. \<not> revealed s) ss') = length (filter (\<lambda>s. \<not> revealed s) (influence p)) - 1"
    by blast
  have "length (filter (\<lambda>s. \<not> revealed s) ss') = 0"
    using ss'(2) one by (simp add: oneLeft_def getInfluence_def)
  then have "list_all revealed ss'"
    by (simp only: unrevealed_none)
  then show ?thesis
    using ss'(1) one by (simp add: deadSeat_def revealFirstInfluence_def oneLeft_def)
qed

lemma twoLeft_reveal:
  assumes "influenceCount p = 2" "length (getInfluence p) = 2"
  shows "oneLeft (revealFirstInfluence p)"
proof -
  have "filter (\<lambda>s. \<not> revealed s) (influence p) \<noteq> []"
    using assms by (auto simp: getInfluence_def)
  from revealFirst_some [OF this] obtain ss' where ss': "revealFirst (influence p) = Some ss'"
      "length (filter (\<lambda>s. \<not> revealed s) ss') = length (filter (\<lambda>s. \<not> revealed s) (influence p)) - 1"
    by blast
  then show ?thesis
    using assms by (simp add: oneLeft_def revealFirstInfluence_def getInfluence_def)
qed

lemma deadSeat_reveal: "deadSeat p \<Longrightarrow> deadSeat (revealFirstInfluence p)"
proof -
  assume d: "deadSeat p"
  then have "filter (\<lambda>s. \<not> revealed s) (influence p) = []"
    by (simp add: deadSeat_def list_all_iff filter_empty_conv)
  then have "revealFirst (influence p) = None"
    by (rule revealFirst_none)
  then show ?thesis
    using d by (simp add: revealFirstInfluence_def)
qed

lemma deadSeat_cash [simp]: "deadSeat (p\<lparr>cash := n\<rparr>) = deadSeat p"
  by (simp add: deadSeat_def)

lemma oneLeft_cash [simp]: "oneLeft (p\<lparr>cash := n\<rparr>) = oneLeft p"
  by (simp add: oneLeft_def getInfluence_def)

lemma length_updPlayer [simp]: "length (players (updPlayer x f g)) = length (players g)"
  by (cases x) (simp_all add: updPlayer_def)

lemma state_updPlayer [simp]: "state (updPlayer x f g) = state g"
  by (cases x) (simp_all add: updPlayer_def)

lemma playerAt_Num [simp]:
  "b < length (players g) \<Longrightarrow> playerAt g (Num (int b)) = Some (players g ! b)"
  by (simp add: playerAt_def)

lemma updPlayer_same [simp]:
  "b < length (players g) \<Longrightarrow> players (updPlayer (Num (int b)) f g) ! b = f (players g ! b)"
  by (simp add: updPlayer_def)

lemma updPlayer_keeps:
  assumes "\<And>p. P p \<Longrightarrow> P (f p)" "P (players g ! b)"
  shows "P (players (updPlayer x f g) ! b)"
proof (cases x)
  case (Num i)
  show ?thesis
  proof (cases "nat i < length (players g) \<and> nat i = b")
    case True
    with Num assms show ?thesis by (simp add: updPlayer_def)
  next
    case False
    with Num assms(2) show ?thesis
      by (auto simp: updPlayer_def nth_list_update)
  qed
qed (simp_all add: updPlayer_def assms(2))

lemma deadSeat_playAction:
  assumes "deadSeat (players g ! b)"
  shows "deadSeat (players (final (playAction cfg p a t br g)) ! b)"
proof -
  have keep: "deadSeat (players (updPlayer x f h) ! b)"
    if "deadSeat (players h ! b)" "\<And>q. deadSeat q \<Longrightarrow> deadSeat (f q)" for x f h
    using that(2) that(1) by (rule updPlayer_keeps)
  show ?thesis
    unfolding playAction_def
    apply (simp add: Let_def split_beta setState_def rand_def split: option.split)
    apply (intro conjI impI allI players_andThen [where P = "\<lambda>ps. deadSeat (ps ! b)"])
    apply (simp_all add: assms keep deadSeat_reveal)
    done
qed

lemma oneLeft_playAction:
  assumes "b < length (players g)" "oneLeft (players g ! b)" "playerAt g p \<noteq> None"
    "actions cfg ''assassinate'' \<noteq> None"
  shows "deadSeat (players (final (playAction cfg p (Some ''assassinate'') (Num (int b)) br g)) ! b)"
proof -
  from assms(3) obtain pl where pl: "playerAt g p = Some pl" by blast
  from assms(4) obtain a where a: "lookupAction cfg (Some ''assassinate'') = Some a"
    by (auto simp: lookupAction_def)
  let ?g1 = "updPlayer p (\<lambda>q. q\<lparr>cash := cash q + gain a\<rparr>) g"
  have one: "oneLeft (players ?g1 ! b)"
    by (rule updPlayer_keeps) (simp_all add: assms(2))
  then have cnt: "influenceCount (players ?g1 ! b) = 1"
    by (simp add: oneLeft_def)
  have "deadSeat (revealFirstInfluence (players ?g1 ! b))"
    using one by (rule oneLeft_reveal)
  then show ?thesis
    using pl a cnt assms(1)
    by (simp add: playAction_def Let_def
          players_andThen [where P = "\<lambda>ps. deadSeat (ps ! b)"])
qed

lemma players_emit:
  "players (final (andThen r (\<lambda>u g'. Ok () (emitState g')))) = players (final r)"
  by (cases r) (simp_all add: andThen_def emitState_def)

lemma deadSeat_afterSuccessfulChallenge:
  "deadSeat (players g ! b) \<Longrightarrow> deadSeat (players (final (afterSuccessfulChallenge cfg g)) ! b)"
  by (simp add: afterSuccessfulChallenge_def deadSeat_playAction)

text \<open>
  The challenge itself. The state of a block holds the blocker in \<open>target\<close>, whoever
  the action was aimed at; \<open>b\<close> below is that seat.
\<close>

lemma bluffed_block_lost:
  assumes blk: "name (state g) = BLOCK_RESPONSE"
    and act: "action (state g) = Some ''assassinate''"
    and tgt: "target (state g) = Num (int b)"
    and b: "b < length (players g)"
    and p: "pIdx < length (players g)"
    and alive: "influenceCount (players g ! pIdx) \<noteq> 0"
    and other: "pIdx \<noteq> b"
    and fresh: "p_stateId c = stateId g"
    and cmd: "p_command c = ''challenge''"
    and bluff: "indexOfInfluence (players g ! b) (blockingRole (state g)) = None"
    and role: "truthy (blockingRole (state g))"
    and tracker: "gameTracker g"
    and actor: "playerAt g (playerIdx (state g)) \<noteq> None"
    and table: "actions cfg ''assassinate'' \<noteq> None"
    and sync: "influenceCount (players g ! b) = int (length (getInfluence (players g ! b)))"
    and two: "influenceCount (players g ! b) \<le> 2"
  shows "deadSeat (players (final (command cfg pIdx c g)) ! b)"
proof -
  let ?g1 = "updPlayer (Num (int b)) revealFirstInfluence g"
  let ?rest = "\<lambda>(u::unit) g2. andThen (afterSuccessfulChallenge cfg g2)
                 (\<lambda>endOfTurn g3. if endOfTurn then nextTurn g3 else Ok () g3)"
  have c1: "command cfg pIdx c g
            = andThen (challenge cfg pIdx (Num (int b)) (blockingRole (state g)) g)
                (\<lambda>u g'. Ok () (emitState g'))"
    using blk tgt p alive other fresh cmd
    by (simp add: command_def command_challenge_def)
  have c2: "challenge cfg pIdx (Num (int b)) (blockingRole (state g)) g
            = andThen (if map_option influenceCount (playerAt ?g1 (Num (int b))) = Some 0
                       then afterPlayerDeath (Num (int b)) ?g1 else Ok () ?g1) ?rest"
    using blk act tgt b bluff tracker
    by (simp add: challenge_def Let_def)
  have at1: "playerAt ?g1 (Num (int b)) = Some (revealFirstInfluence (players g ! b))"
    using b by (simp add: playerAt_def)
  have rest_dead: "deadSeat (players (final (?rest u h)) ! b)"
    if "deadSeat (players h ! b)" for u h
    using that
    by (auto intro!: players_andThen [where P = "\<lambda>ps. deadSeat (ps ! b)"]
          deadSeat_afterSuccessfulChallenge)
  have "deadSeat (players (final (challenge cfg pIdx (Num (int b)) (blockingRole (state g)) g)) ! b)"
  proof (cases "influenceCount (players g ! b) = 2")
    case True
    then have one: "oneLeft (revealFirstInfluence (players g ! b))"
      using sync by (intro twoLeft_reveal) simp_all
    then have "influenceCount (revealFirstInfluence (players g ! b)) = 1"
      by (simp add: oneLeft_def)
    then have c3: "challenge cfg pIdx (Num (int b)) (blockingRole (state g)) g = ?rest () ?g1"
      unfolding c2 at1 by (simp add: andThen_def)
    have "afterSuccessfulChallenge cfg ?g1
          = playAction cfg (playerIdx (state g)) (Some ''assassinate'') (Num (int b))
              (blockingRole (state g)) ?g1"
      using role act tgt by (simp add: afterSuccessfulChallenge_def)
    moreover have "playerAt ?g1 (playerIdx (state g)) \<noteq> None"
      using actor by (auto simp: playerAt_def split: jsnum.splits if_splits)
    moreover have "oneLeft (players ?g1 ! b)"
      using one b by simp
    ultimately have "deadSeat (players (final (afterSuccessfulChallenge cfg ?g1)) ! b)"
      using oneLeft_playAction [of b ?g1 "playerIdx (state g)" cfg] b table by simp
    then show ?thesis
      unfolding c3
      by (auto intro!: players_andThen [where P = "\<lambda>ps. deadSeat (ps ! b)"])
  next
    case False
    have "length (getInfluence (players g ! b)) \<le> 1"
      using False two sync by simp
    then consider "length (getInfluence (players g ! b)) = 0"
      | "length (getInfluence (players g ! b)) = 1"
      by linarith
    then have dead: "deadSeat (revealFirstInfluence (players g ! b))"
    proof cases
      case 1
      then have "deadSeat (players g ! b)"
        using sync by (simp add: deadSeat_def getInfluence_def unrevealed_none [symmetric])
      then show ?thesis by (rule deadSeat_reveal)
    next
      case 2
      then have "oneLeft (players g ! b)"
        using sync by (simp add: oneLeft_def)
      then show ?thesis by (rule oneLeft_reveal)
    qed
    then have d1: "deadSeat (players ?g1 ! b)"
      using b by simp
    show ?thesis
      unfolding c2
      by (rule players_andThen [where P = "\<lambda>ps. deadSeat (ps ! b)"])
         (simp_all add: d1 rest_dead)
  qed
  then show ?thesis
    unfolding c1 by (simp add: players_emit)
qed

lemma command_block_accepted:
  assumes "p_command c0 = ''block''" "command cfg b c0 g0 = Ok () g"
  shows "name (state g) = BLOCK_RESPONSE \<and> action (state g) = action (state g0)
         \<and> target (state g) = Num (int b) \<and> blockingRole (state g) = p_blockingRole c0
         \<and> playerIdx (state g) = playerIdx (state g0)
         \<and> truthy (p_blockingRole c0) \<and> gameTracker g \<and> players g = players g0
         \<and> b < length (players g0) \<and> lookupAction cfg (action (state g0)) \<noteq> None"
  using assms
  by (auto simp: command_def command_block_def andThen_def emitState_def resetAllows_def
        setState_def newState_def split: if_splits option.splits)

text \<open>
  C7, as the code has it. An assassinate is pending against seat \<open>b\<close>, and the block of
  seat \<open>b\<close>, the target, is accepted: the game is in BlockResponse. A live seat other
  than \<open>b\<close> challenges the block, and \<open>b\<close> holds no unrevealed influence of the role it
  claimed. Then seat \<open>b\<close> is left with no influence at all: it loses both influences when
  it held two, and its only one when it held one.
\<close>

theorem bluffed_block_challenged:
  assumes act: "action (state g0) = Some ''assassinate''"
    and tgt: "target (state g0) = Num (int b)"
    and blk: "p_command c0 = ''block''"
    and blocked: "command cfg b c0 g0 = Ok () g"
    and bluff: "indexOfInfluence (players g ! b) (p_blockingRole c0) = None"
    and p: "pIdx < length (players g)"
    and alive: "influenceCount (players g ! pIdx) \<noteq> 0"
    and other: "pIdx \<noteq> b"
    and fresh: "p_stateId c = stateId g"
    and cmd: "p_command c = ''challenge''"
    and actor: "playerAt g (playerIdx (state g)) \<noteq> None"
    and sync: "influenceCount (players g ! b) = int (length (getInfluence (players g ! b)))"
    and two: "influenceCount (players g ! b) \<le> 2"
  shows "name (state g) = BLOCK_RESPONSE \<and> target (state g) = target (state g0)
         \<and> deadSeat (players (final (command cfg pIdx c g)) ! b)"
proof -
  note acc = command_block_accepted [OF blk blocked]
  have s: "name (state g) = BLOCK_RESPONSE" "action (state g) = Some ''assassinate''"
    "target (state g) = Num (int b)" "b < length (players g)"
    "truthy (blockingRole (state g))" "gameTracker g"
    "indexOfInfluence (players g ! b) (blockingRole (state g)) = None"
    using acc act bluff by simp_all
  have table: "actions cfg ''assassinate'' \<noteq> None"
    using acc act by (simp add: lookupAction_def)
  have "deadSeat (players (final (command cfg pIdx c g)) ! b)"
    using s(1,2,3,4) p alive other fresh cmd s(7) s(5,6) actor table sync two
    by (rule bluffed_block_lost)
  then show ?thesis
    using s tgt by simp
qed

theorem bluffed_block_challenged_witness:
  "action (state aimed2) = Some ''assassinate'' \<and> target (state aimed2) = Num (int 1)
   \<and> send 1 (blockWith ''contessa'') aimed2 = Ok () blocked2
   \<and> indexOfInfluence (players blocked2 ! 1) (Some ''contessa'') = None
   \<and> (0::nat) < length (players blocked2) \<and> influenceCount (players blocked2 ! 0) \<noteq> 0
   \<and> playerAt blocked2 (playerIdx (state blocked2)) \<noteq> None
   \<and> influenceCount (players blocked2 ! 1) = int (length (getInfluence (players blocked2 ! 1)))
   \<and> influenceCount (players blocked2 ! 1) = 2
   \<and> name (state blocked2) = BLOCK_RESPONSE \<and> target (state blocked2) = target (state aimed2)
   \<and> deadSeat (players (sent 0 (request ''challenge'') blocked2) ! 1)"
proof -
  let ?blk = "(blockWith ''contessa'')\<lparr>p_stateId := stateId aimed2\<rparr>"
  let ?c = "(request ''challenge'')\<lparr>p_stateId := stateId blocked2\<rparr>"
  have h1: "action (state aimed2) = Some ''assassinate''" by code_simp
  have h2: "target (state aimed2) = Num (int 1)" by code_simp
  have h3: "p_command ?blk = ''block''" by (simp add: blockWith_def request_def)
  have h4: "send 1 (blockWith ''contessa'') aimed2 = Ok () blocked2" by code_simp
  have h4': "command exampleConfig 1 ?blk aimed2 = Ok () blocked2"
    using h4 by (simp add: send_def)
  have h5: "indexOfInfluence (players blocked2 ! 1) (Some ''contessa'') = None" by code_simp
  have h5': "indexOfInfluence (players blocked2 ! 1) (p_blockingRole ?blk) = None"
    using h5 by (simp add: blockWith_def)
  have h6: "(0::nat) < length (players blocked2)" by code_simp
  have h7: "influenceCount (players blocked2 ! 0) \<noteq> 0" by code_simp
  have h8: "(0::nat) \<noteq> 1" by simp
  have h9: "p_stateId ?c = stateId blocked2" by simp
  have h10: "p_command ?c = ''challenge''" by (simp add: request_def)
  have h11: "playerAt blocked2 (playerIdx (state blocked2)) \<noteq> None" by code_simp
  have h12: "influenceCount (players blocked2 ! 1)
             = int (length (getInfluence (players blocked2 ! 1)))" by code_simp
  have h13: "influenceCount (players blocked2 ! 1) = 2" by code_simp
  have h14: "influenceCount (players blocked2 ! 1) \<le> 2" using h13 by simp
  from bluffed_block_challenged [OF h1 h2 h3 h4' h5' h6 h7 h8 h9 h10 h11 h12 h14]
  have c: "name (state blocked2) = BLOCK_RESPONSE
           \<and> target (state blocked2) = target (state aimed2)
           \<and> deadSeat (players (sent 0 (request ''challenge'') blocked2) ! 1)"
    by (simp add: sent_def send_def)
  with h1 h2 h4 h5 h6 h7 h11 h12 h13 show ?thesis
    by blast
qed

text \<open>
  The claim as stated fails for a target that holds a single influence when it blocks: it
  loses that one, not two.
\<close>

theorem bluffed_block_counterexample:
  "name (state aimed1) = ACTION_RESPONSE \<and> action (state aimed1) = Some ''assassinate''
   \<and> playerIdx (state aimed1) = Num 1 \<and> target (state aimed1) = Num 0
   \<and> send 0 (blockWith ''contessa'') aimed1 = Ok () blocked1
   \<and> name (state blocked1) = BLOCK_RESPONSE \<and> action (state blocked1) = Some ''assassinate''
   \<and> playerIdx (state blocked1) = Num 1 \<and> target (state blocked1) = Num 0
   \<and> blockingRole (state blocked1) = Some ''contessa''
   \<and> indexOfInfluence (players blocked1 ! 0) (Some ''contessa'') = None
   \<and> influenceCount (players blocked1 ! 0) = 1
   \<and> rejected (send 1 (request ''challenge'') blocked1) = False
   \<and> influenceCount (players (sent 1 (request ''challenge'') blocked1) ! 0) = 0
   \<and> influenceCount (players blocked1 ! 0)
       - influenceCount (players (sent 1 (request ''challenge'') blocked1) ! 0) = 1"
  by code_simp

section \<open>Leaving the game (C8)\<close>

text \<open>
  C8. \<open>playerLeft\<close> forces the game forward for the seat that holds the turn, for the
  seat that is due to reveal, and for a seat that owes an allow in ActionResponse or
  BlockResponse; it has no case for FinalActionResponse. When the target of the steal
  leaves in the final window, the game is not over and the state stays
  FinalActionResponse with the departed seat as its target, and an allow of either
  remaining seat is rejected: the game waits for the seat that left.
\<close>

theorem leave_in_final_window:
  "name (state finalWindow) = FINAL_ACTION_RESPONSE \<and> target (state finalWindow) = Num 0
   \<and> \<not> rejected (playerLeft exampleConfig 0 finalWindow)
   \<and> conns (left 0 finalWindow) ! 0 = None
   \<and> name (state (left 0 finalWindow)) = FINAL_ACTION_RESPONSE
   \<and> target (state (left 0 finalWindow)) = Num 0
   \<and> send 1 (request ''allow'') (left 0 finalWindow)
       = Throw (GameException ''Cannot allow your own action'') (left 0 finalWindow)
   \<and> send 2 (request ''allow'') (left 0 finalWindow)
       = Throw (GameException ''Only the targetted player can allow the action'')
           (left 0 finalWindow)"
  by code_simp

section \<open>The handle of an observer (C9)\<close>

text \<open>
  C9. The handle that \<open>playerJoined\<close> gives an observer has the empty function as its
  \<open>command\<close>. When a seat with a lower index leaves, \<open>playerLeft\<close> rewires the handles of all
  later seats with \<open>createGameProxy\<close>, which also gives the observer's handle a \<open>command\<close>
  that calls the engine. In the lobby of seven the observer's handle does nothing; after
  the first participant has left, a start command through the same handle starts the game
  and broadcasts.
\<close>

theorem observer_handle_rewired:
  "isObserver (players lobby7 ! 6) \<and> h_command (handles lobby7 ! 6) = None
   \<and> handle_command exampleConfig 6 ((request ''start'')\<lparr>p_stateId := stateId lobby7\<rparr>) lobby7
       = Ok () lobby7
   \<and> isObserver (players rewired ! 5) \<and> h_command (handles rewired ! 6) = Some 5
   \<and> name (state rewired) = WAITING_FOR_PLAYERS
   \<and> \<not> rejected (handle_command exampleConfig 6
                     ((request ''start'')\<lparr>p_stateId := stateId rewired\<rparr>) rewired)
   \<and> name (state (final (handle_command exampleConfig 6
                     ((request ''start'')\<lparr>p_stateId := stateId rewired\<rparr>) rewired)))
       = START_OF_TURN
   \<and> stateId (final (handle_command exampleConfig 6
                     ((request ''start'')\<lparr>p_stateId := stateId rewired\<rparr>) rewired))
       = stateId rewired + 1"
  by code_simp

section \<open>Card conservation (C1)\<close>

subsection \<open>Results of calls, and the invariant under updates\<close>

lemma post_simps [simp]: "post Q P (Ok a g) = Q a g" "post Q P (Throw e g) = P g"
  by (simp_all add: post_def)



lemma post_final: "post (\<lambda>a. P) P r \<Longrightarrow> P (final r)"
  by (cases r) simp_all

lemma inPlay_cong:
  assumes "players g' = players g" "deck g' = deck g" "state g' = state g"
    "roles g' = roles g" "gameTracker g' = gameTracker g"
  shows "inPlay g' = inPlay g"
proof -
  have at: "playerAt g' = playerAt g"
    using assms(1) by (auto simp: playerAt_def fun_eq_iff split: jsnum.split)
  have "unrev g' = unrev g" "offered g' = offered g" "held g' = held g"
    using assms at by (simp_all add: unrev_def offered_def held_def fun_eq_iff)
  then show ?thesis
    using assms at
    by (simp add: inPlay_def offerOk_def conserved_def drawn_def)
qed

lemma inPlay_frame [simp]:
  "inPlay (g\<lparr>allows := a\<rparr>) = inPlay g"
  "inPlay (g\<lparr>turnHistGroup := t\<rparr>) = inPlay g"
  "inPlay (g\<lparr>adhocHistGroup := h\<rparr>) = inPlay g"
  "inPlay (g\<lparr>rngPos := n\<rparr>) = inPlay g"
  "inPlay (g\<lparr>stateId := k\<rparr>) = inPlay g"
  "inPlay (emitState g) = inPlay g"
  "inPlay (resetAllows i g) = inPlay g"
  by (rule inPlay_cong; simp add: emitState_def resetAllows_def)+

lemma state_frame [simp]:
  "state (setState s g) = s"
  "state (resetAllows i g) = state g"
  "state (emitState g) = state g"
  by (simp_all add: setState_def resetAllows_def emitState_def)



lemma candidateIdx_some: "0 \<le> k \<Longrightarrow> candidateIdx (Num k) i n \<noteq> None"
  by (simp add: candidateIdx_def)







lemma seatOk_cash [simp]: "seatOk (p\<lparr>cash := n\<rparr>) = seatOk p"
  by (simp add: seatOk_def getInfluence_def)

lemma getInfluence_cash [simp]: "getInfluence (p\<lparr>cash := n\<rparr>) = getInfluence p"
  by (simp add: getInfluence_def)



lemma assignRoles_revealed: "map revealed (assignRoles ss rs) = map revealed ss"
  by (induction ss arbitrary: rs) simp_all








lemma updPlayer_fields [simp]:
  "deck (updPlayer x f g) = deck g"
  "roles (updPlayer x f g) = roles g"
  "gameTracker (updPlayer x f g) = gameTracker g"
  by (cases x; simp add: updPlayer_def)+









lemma shuffle_loop_length:
  "length (fst (shuffle_loop r array shuffled pos)) = length array + length shuffled"
proof (induction r array shuffled pos rule: shuffle_loop.induct)
  case (1 r array shuffled pos)
  show ?case
  proof (cases "array = []")
    case True
    then show ?thesis by (simp add: shuffle_loop.simps)
  next
    case False
    then have "r pos mod length array < length array" by simp
    then have "length (splice1 (r pos mod length array) array) + 1 = length array"
      by (simp add: splice1_def)
    with 1 [OF False] False show ?thesis
      by (subst shuffle_loop.simps) simp
  qed
qed

lemma shuffle_length [simp]: "length (fst (shuffle cfg xs g)) = length xs"
  by (simp add: shuffle_def shuffle_loop_length)

lemma shuffle_fields [simp]:
  "players (snd (shuffle cfg xs g)) = players g"
  "deck (snd (shuffle cfg xs g)) = deck g"
  "state (snd (shuffle cfg xs g)) = state g"
  "roles (snd (shuffle cfg xs g)) = roles g"
  "gameTracker (snd (shuffle cfg xs g)) = gameTracker g"
  by (simp_all add: shuffle_def)

lemma rand_fields [simp]:
  "players (snd (rand cfg n g)) = players g"
  "deck (snd (rand cfg n g)) = deck g"
  "state (snd (rand cfg n g)) = state g"
  "roles (snd (rand cfg n g)) = roles g"
  "gameTracker (snd (rand cfg n g)) = gameTracker g"
  by (simp_all add: rand_def)

lemma inPlay_rand [simp]: "inPlay (snd (rand cfg n g)) = inPlay g"
  by (rule inPlay_cong) simp_all

lemma inPlay_deck:
  assumes "length d = length (deck g)"
  shows "inPlay (g\<lparr>deck := d\<rparr>) = inPlay g"
proof -
  have "playerAt (g\<lparr>deck := d\<rparr>) = playerAt g"
    by (auto simp: playerAt_def fun_eq_iff split: jsnum.split)
  then show ?thesis
    using assms
    by (simp add: inPlay_def held_def offerOk_def conserved_def drawn_def unrev_def offered_def)
qed

lemma pop_length: "d \<noteq> [] \<Longrightarrow> Suc (length (snd (pop d))) = length d"
  by (simp add: pop_def)

lemma swapRole_fields [simp]:
  "players (snd (swapRole cfg r g)) = players g"
  "state (snd (swapRole cfg r g)) = state g"
  "roles (snd (swapRole cfg r g)) = roles g"
  "gameTracker (snd (swapRole cfg r g)) = gameTracker g"
  by (simp_all add: swapRole_def Let_def split_beta)

lemma swapRole_deck [simp]: "length (deck (snd (swapRole cfg r g))) = length (deck g)"
proof -
  have "fst (shuffle cfg (deck g @ [r]) g) \<noteq> []"
    using shuffle_length [of cfg "deck g @ [r]" g] by (metis length_0_conv snoc_eq_iff_butlast)
  from pop_length [OF this] show ?thesis
    by (simp add: swapRole_def Let_def split_beta)
qed

lemma inPlay_swapRole [simp]: "inPlay (snd (swapRole cfg r g)) = inPlay g"
proof -
  have "inPlay (snd (swapRole cfg r g)) = inPlay (g\<lparr>deck := deck (snd (swapRole cfg r g))\<rparr>)"
    by (rule inPlay_cong) simp_all
  then show ?thesis
    by (simp add: inPlay_deck)
qed

subsection \<open>Actions, challenges and allows keep the invariant\<close>







lemma js_eq_Num [simp]: "js_eq x (Num k) = (x = Num k)" "js_eq (Num k) x = (x = Num k)"
  by (cases x; auto)+

lemma truthy_None [simp]: "\<not> truthy None"
  by (simp add: truthy_def)





subsection \<open>Commands keep the invariant\<close>







lemma assignRoles_length [simp]: "length (assignRoles ss rs) = length ss"
  using assignRoles_revealed [of ss rs] by (metis length_map)




lemma andThen_simps: "andThen (Ok a g) f = f a g" "andThen (Throw e g) f = Throw e g"
  by (simp_all add: andThen_def)


subsection \<open>The lobby and the deal\<close>


lemma isObserver_setRole [simp]: "isObserver (setRole j r p) = isObserver p"
  by (simp add: setRole_def)






lemma gameRoles_length [simp]: "length (gameRoles gt) = 5"
  by (simp add: gameRoles_def Let_def)


lemma firstTurn_fields [simp]:
  "players (firstTurn cfg g) = players g" "deck (firstTurn cfg g) = deck g"
  "roles (firstTurn cfg g) = roles g" "gameTracker (firstTurn cfg g) = gameTracker g"
  "name (state (firstTurn cfg g)) = START_OF_TURN"
  by (simp_all add: firstTurn_def Let_def split_beta setState_def newState_def rand_def
        split: option.split)




lemma inLobby_cong:
  assumes "players g' = players g" "state g' = state g" "roles g' = roles g"
    "gameTracker g' = gameTracker g"
  shows "inLobby g' = inLobby g"
  using assms by (simp add: inLobby_def)

lemma inLobby_frame [simp]:
  "inLobby (g\<lparr>adhocHistGroup := h\<rparr>) = inLobby g"
  "inLobby (g\<lparr>conns := cs\<rparr>) = inLobby g"
  "inLobby (g\<lparr>proxies := ps\<rparr>) = inLobby g"
  "inLobby (emitState g) = inLobby g"
  "inLobby (rewire i g) = inLobby g"
  by (rule inLobby_cong; simp add: emitState_def rewire_def)+








lemma lobby_rejects:
  assumes "final r = g" "inLobby g" "\<And>a g'. inLobby g' \<Longrightarrow> inLobby (final (f a g'))"
  shows "inLobby (final (andThen r f))"
  using assms by (cases r) (simp_all add: andThen_simps)


subsection \<open>Leaving, and games that are over\<close>





lemma inPlay_conns [simp]: "inPlay (g\<lparr>conns := cs\<rparr>) = inPlay g"
  "inPlay (g\<lparr>proxies := ps\<rparr>) = inPlay g" "inPlay (rewire i g) = inPlay g"
  by (rule inPlay_cong; simp add: rewire_def)+


lemma state_playerJoined [simp]: "state (snd (playerJoined cfg c g)) = state g"
  by (simp add: playerJoined_def Let_def split_beta emitState_def)

lemma over_frame [simp]:
  "over (g\<lparr>conns := cs\<rparr>) = over g" "over (g\<lparr>players := ps\<rparr>) = over g"
  "over (g\<lparr>proxies := xs\<rparr>) = over g" "over (g\<lparr>adhocHistGroup := k\<rparr>) = over g"
  "over (emitState g) = over g" "over (rewire i g) = over g"
  "over (updPlayer x f g) = over g" "over (destroyGame g)"
  by (auto simp: over_def emitState_def rewire_def updPlayer_def destroyGame_def setState_def
        split: jsnum.split)



lemma over_playerJoined [simp]: "over (snd (playerJoined cfg c g)) = over g"
  by (simp add: over_def)




subsection \<open>The count\<close>




end
